theory Spec2Isabelle
  imports Main
begin

section \<open>Strings\<close>

text \<open>
  Strings are lists of characters. \<open>toLowerCase\<close> maps the letters \<open>A\<close> to \<open>Z\<close> to
  \<open>a\<close> to \<open>z\<close> and leaves every other character as it is; \<open>includes_str s k\<close> is the
  test \<open>s.includes(k)\<close>: \<open>k\<close> occurs in \<open>s\<close> as a contiguous block.
\<close>

definition toLowerCase_char :: "char \<Rightarrow> char" where
  "toLowerCase_char c =
     (case map_of (zip ''ABCDEFGHIJKLMNOPQRSTUVWXYZ'' ''abcdefghijklmnopqrstuvwxyz'') c of
        Some l \<Rightarrow> l
      | None \<Rightarrow> c)"

definition toLowerCase :: "string \<Rightarrow> string" where
  "toLowerCase s = map toLowerCase_char s"

fun startsWith :: "string \<Rightarrow> string \<Rightarrow> bool" where
  "startsWith s [] = True"
| "startsWith [] (k # ks) = False"
| "startsWith (c # cs) (k # ks) = (c = k \<and> startsWith cs ks)"

fun includes_str :: "string \<Rightarrow> string \<Rightarrow> bool" where
  "includes_str [] k = (k = [])"
| "includes_str (c # cs) k = (startsWith (c # cs) k \<or> includes_str cs k)"

text \<open>JavaScript truthiness of a value that is a string or \<open>undefined\<close>/\<open>null\<close>.\<close>

definition truthy :: "string option \<Rightarrow> bool" where
  "truthy v = (case v of None \<Rightarrow> False | Some s \<Rightarrow> s \<noteq> [])"

text \<open>
  The words of the specification: a keyword occurs in a text "as a case-insensitive
  substring" when the lowered text splits into a part before, the lowered keyword and a
  part after.
\<close>

definition occurs_ci :: "string \<Rightarrow> string \<Rightarrow> bool" where
  "occurs_ci k s = (\<exists>pre post. toLowerCase s = pre @ toLowerCase k @ post)"

section \<open>Data model\<close>

text \<open>
  Documents of the three collections. A stored document is a pair of its \<open>_id\<close> and its
  fields. An id is a value of one of two kinds: an \<open>ObjectId\<close>, which is what the store
  generates for a document inserted without \<open>_id\<close> (every insert of the source), given
  here by its hexadecimal text, or a plain string, for documents that were stored with a
  string as \<open>_id\<close>. \<open>toString\<close> is \<open>_id.toString()\<close>. A query \<open>{ _id: x }\<close> selects the
  documents whose id equals \<open>x\<close> as a value: a string never equals an \<open>ObjectId\<close>, even
  one that reads the same.
  Optional fields are options, timestamps are natural numbers (milliseconds).
  Fields of different documents that share a name in the source carry a prefix here.
\<close>

datatype doc_id = ObjectId string | StrId string

fun toString :: "doc_id \<Rightarrow> string" where
  "toString (ObjectId hex) = hex"
| "toString (StrId s) = s"

record notificationPreferences =
  pref_email :: "bool option"
  pref_inApp :: "bool option"
  pref_push :: "bool option"

record user =
  email :: "string option"
  password :: string
  companyName :: string
  userType :: string
  bidderType :: "string option"
  isVerified :: bool
  verificationToken :: string
  verificationExpires :: nat
  notificationPrefs :: "notificationPreferences option"
  u_createdAt :: nat
  u_updatedAt :: nat

datatype NotificationType =
    PROJECT_CREATED
  | PROJECT_PUBLISHED
  | BID_SUBMITTED
  | PROFILE_CREATED
  | BID_ACCEPTED
  | BID_REJECTED
  | TENDER_DEADLINE
  | DOCUMENT_VERIFIED
  | DOCUMENT_UPLOADED
  | TENDER_DOCUMENT_UPLOADED
  | BID_DOCUMENT_UPLOADED
  | PROJECT_STATUS_CHANGED
  | TENDER_UPDATED
  | NEW_TENDER_AVAILABLE
  | SIGNUP_COMPLETE

record metadata =
  md_projectId :: "string option"
  md_bidId :: "string option"
  md_tenderId :: "string option"
  md_profileId :: "string option"

record notification =
  userId :: string
  ntype :: NotificationType
  title :: string
  message :: string
  read :: bool
  createdAt :: nat
  meta :: "metadata option"

text \<open>
  A project keeps \<open>budget\<close> and \<open>deadline\<close> as the text of the request: the conversions
  \<open>parseFloat\<close> and \<open>new Date\<close> of the source are floating point and date parsing,
  which this development leaves out.
\<close>

record project =
  p_title :: string
  p_description :: string
  p_budget :: string
  p_location :: "string option"
  p_deadline :: string
  p_category :: string
  p_duration :: "string option"
  p_specifications :: "string option"
  p_requirements :: "string list"
  p_documents :: "string list"
  p_hasFiles :: bool
  p_status :: string
  p_bidCount :: nat
  p_progress :: nat
  p_tenderId :: string
  p_createdBy :: string
  p_tenderCompany :: string
  p_createdAt :: nat
  p_updatedAt :: nat

section \<open>The world: store, email gateway, log\<close>

datatype mail =
    Email string string string
  | VerificationEmail string string string

datatype error =
    EmailSendError mail
  | JsonParseError
  | TypeError string

text \<open>
  The state a request runs in: the three collections, every email handed to the gateway
  (\<open>attempts\<close>) and those it delivered (\<open>outbox\<close>), the lines written with
  \<open>console.error\<close>, and \<open>tick\<close>, the number of values taken so far from the outside
  (clock readings, generated ids, generated tokens).
\<close>

record world =
  users :: "(doc_id \<times> user) list"
  notifications :: "(doc_id \<times> notification) list"
  projects :: "(doc_id \<times> project) list"
  attempts :: "mail list"
  outbox :: "mail list"
  log :: "string list"
  tick :: nat

record token_payload =
  pl_userId :: string
  pl_userType :: string
  pl_companyName :: string

text \<open>
  The external collaborators are parameters: the clock, the generator of the text of
  the store's ObjectIds, the email gateway (given the emails attempted so far and the
  email at hand, it delivers or raises), and the helpers of \<open>lib/auth\<close>. The store itself is modelled as always
  answering: \<open>find\<close>, \<open>insert\<close> and \<open>update\<close> raise nothing here.
\<close>

record env =
  clock :: "nat \<Rightarrow> nat"
  oid :: "nat \<Rightarrow> string"
  gateway :: "mail list \<Rightarrow> mail \<Rightarrow> bool"
  verifyToken :: "string \<Rightarrow> token_payload option"
  hashPassword :: "string \<Rightarrow> string"
  generateVerificationToken :: "nat \<Rightarrow> string"

subsection \<open>Actions that may raise\<close>

text \<open>
  An action takes the world and returns the new world with either the raised error
  (\<open>Inl\<close>) or the value (\<open>Inr\<close>). \<open>io_bind\<close> is sequencing (\<open>await\<close>), where an error
  of the first action skips the rest; \<open>io_try\<close> is \<open>try { ... } catch (e) { ... }\<close>.
\<close>

type_synonym 'a io = "world \<Rightarrow> world \<times> (error + 'a)"

definition io_return :: "'a \<Rightarrow> 'a io" where
  "io_return x = (\<lambda>w. (w, Inr x))"

definition io_throw :: "error \<Rightarrow> 'a io" where
  "io_throw e = (\<lambda>w. (w, Inl e))"

definition io_bind :: "'a io \<Rightarrow> ('a \<Rightarrow> 'b io) \<Rightarrow> 'b io" where
  "io_bind m k = (\<lambda>w. case m w of (w', Inl e) \<Rightarrow> (w', Inl e) | (w', Inr x) \<Rightarrow> k x w')"

definition io_try :: "'a io \<Rightarrow> (error \<Rightarrow> 'a io) \<Rightarrow> 'a io" where
  "io_try m h = (\<lambda>w. case m w of (w', Inl e) \<Rightarrow> h e w' | (w', Inr x) \<Rightarrow> (w', Inr x))"

fun io_map :: "('a \<Rightarrow> 'b io) \<Rightarrow> 'a list \<Rightarrow> 'b list io" where
  "io_map f [] = io_return []"
| "io_map f (x # xs) =
     io_bind (f x) (\<lambda>y. io_bind (io_map f xs) (\<lambda>ys. io_return (y # ys)))"

fun io_forEach :: "'a list \<Rightarrow> ('a \<Rightarrow> unit io) \<Rightarrow> unit io" where
  "io_forEach [] f = io_return ()"
| "io_forEach (x # xs) f = io_bind (f x) (\<lambda>_. io_forEach xs f)"

definition new_Date :: "env \<Rightarrow> nat io" where
  "new_Date e = (\<lambda>w. (w\<lparr>tick := tick w + 1\<rparr>, Inr (clock e (tick w))))"

definition console_error :: "string \<Rightarrow> unit io" where
  "console_error line = (\<lambda>w. (w\<lparr>log := log w @ [line]\<rparr>, Inr ()))"

definition send :: "env \<Rightarrow> mail \<Rightarrow> unit io" where
  "send e m = (\<lambda>w.
     if gateway e (attempts w) m
     then (w\<lparr>attempts := attempts w @ [m], outbox := outbox w @ [m]\<rparr>, Inr ())
     else (w\<lparr>attempts := attempts w @ [m]\<rparr>, Inl (EmailSendError m)))"

definition sendEmail :: "env \<Rightarrow> string \<Rightarrow> string \<Rightarrow> string \<Rightarrow> unit io" where
  "sendEmail e to subject html = send e (Email to subject html)"

definition sendVerificationEmail :: "env \<Rightarrow> string \<Rightarrow> string \<Rightarrow> string \<Rightarrow> unit io" where
  "sendVerificationEmail e to tok company = send e (VerificationEmail to tok company)"

subsection \<open>Store operations\<close>

definition findOne :: "('a \<Rightarrow> bool) \<Rightarrow> 'a list \<Rightarrow> 'a option" where
  "findOne P ds = find P ds"

fun updateOne :: "('a \<Rightarrow> bool) \<Rightarrow> ('a \<Rightarrow> 'a) \<Rightarrow> 'a list \<Rightarrow> 'a list" where
  "updateOne P f [] = []"
| "updateOne P f (d # ds) = (if P d then f d # ds else d # updateOne P f ds)"

definition users_insertOne :: "env \<Rightarrow> user \<Rightarrow> doc_id io" where
  "users_insertOne e d = (\<lambda>w.
     (w\<lparr>users := users w @ [(ObjectId (oid e (tick w)), d)], tick := tick w + 1\<rparr>,
      Inr (ObjectId (oid e (tick w)))))"

definition notifications_insertOne :: "env \<Rightarrow> notification \<Rightarrow> doc_id io" where
  "notifications_insertOne e d = (\<lambda>w.
     (w\<lparr>notifications := notifications w @ [(ObjectId (oid e (tick w)), d)],
        tick := tick w + 1\<rparr>,
      Inr (ObjectId (oid e (tick w)))))"

definition projects_insertOne :: "env \<Rightarrow> project \<Rightarrow> doc_id io" where
  "projects_insertOne e d = (\<lambda>w.
     (w\<lparr>projects := projects w @ [(ObjectId (oid e (tick w)), d)], tick := tick w + 1\<rparr>,
      Inr (ObjectId (oid e (tick w)))))"

definition notifications_insertMany :: "env \<Rightarrow> notification list \<Rightarrow> doc_id list io" where
  "notifications_insertMany e ds = (\<lambda>w.
     (w\<lparr>notifications :=
          notifications w @ zip (map (\<lambda>i. ObjectId (oid e (tick w + i))) [0..<length ds]) ds,
        tick := tick w + length ds\<rparr>,
      Inr (map (\<lambda>i. ObjectId (oid e (tick w + i))) [0..<length ds])))"

definition users_findOne :: "(doc_id \<times> user \<Rightarrow> bool) \<Rightarrow> (doc_id \<times> user) option io" where
  "users_findOne P = (\<lambda>w. (w, Inr (findOne P (users w))))"

definition users_find :: "(doc_id \<times> user \<Rightarrow> bool) \<Rightarrow> (doc_id \<times> user) list io" where
  "users_find P = (\<lambda>w. (w, Inr (filter P (users w))))"

section \<open>Notification service (lib/notifications)\<close>

text \<open>
  The HTML of a notification email. The two senders of the source write the same
  template at two indentations, \<open>n\<close> spaces before the closing backquote.
\<close>

definition spaces :: "nat \<Rightarrow> string" where
  "spaces n = replicate n (CHR '' '')"

definition notification_html :: "nat \<Rightarrow> string \<Rightarrow> string \<Rightarrow> string" where
  \<open>notification_html n ttl msg =
     [CHR 0x0A] @ spaces (n + 2) @
       ''<div style="font-family: Arial, sans-serif; max-width: 600px; margin: 0 auto;">'' @
     [CHR 0x0A] @ spaces (n + 4) @ ''<h2 style="color: #2563eb;">'' @ ttl @ ''</h2>'' @
     [CHR 0x0A] @ spaces (n + 4) @ ''<p>'' @ msg @ ''</p>'' @
     [CHR 0x0A] @ spaces (n + 4) @
       ''<hr style="margin: 20px 0; border: none; border-top: 1px solid #eee;">'' @
     [CHR 0x0A] @ spaces (n + 4) @ ''<p style="color: #666; font-size: 12px;">'' @
     [CHR 0x0A] @ spaces (n + 6) @ ''You received this notification from TenderChain. '' @
     [CHR 0x0A] @ spaces (n + 6) @
       ''To manage your notification preferences, visit your account settings.'' @
     [CHR 0x0A] @ spaces (n + 4) @ ''</p>'' @
     [CHR 0x0A] @ spaces (n + 2) @ ''</div>'' @
     [CHR 0x0A] @ spaces n\<close>

text \<open>\<open>notificationPreferences?.email !== false\<close>, also the query \<open>$ne: false\<close>.\<close>

definition email_not_disabled :: "user \<Rightarrow> bool" where
  "email_not_disabled u =
     (case notificationPrefs u of None \<Rightarrow> True | Some p \<Rightarrow> pref_email p \<noteq> Some False)"

definition createNotification ::
  "env \<Rightarrow> string \<Rightarrow> NotificationType \<Rightarrow> string \<Rightarrow> string \<Rightarrow> metadata option \<Rightarrow> notification io"
where
  "createNotification e uid ty ttl msg md =
     io_bind (new_Date e) (\<lambda>now.
     let notification =
           \<lparr>userId = uid, ntype = ty, title = ttl, message = msg, read = False,
            createdAt = now, meta = md\<rparr>
     in
     io_bind (notifications_insertOne e notification) (\<lambda>_.
     io_bind (users_findOne (\<lambda>(i, u). i = StrId uid)) (\<lambda>found.
     io_bind
       (case found of
          None \<Rightarrow> io_return ()
        | Some (i, u) \<Rightarrow>
            (case email u of
               None \<Rightarrow> io_return ()
             | Some addr \<Rightarrow>
                 if addr \<noteq> [] \<and> email_not_disabled u
                 then sendEmail e addr ttl (notification_html 6 ttl msg)
                 else io_return ()))
       (\<lambda>_. io_return notification))))"

definition getUnreadNotifications :: "string \<Rightarrow> (doc_id \<times> notification) list io" where
  "getUnreadNotifications uid = (\<lambda>w.
     (w, Inr (sort_key (\<lambda>(i, n). - int (createdAt n))
                (filter (\<lambda>(i, n). userId n = uid \<and> read n = False) (notifications w)))))"

definition markNotificationAsRead :: "string \<Rightarrow> unit io" where
  "markNotificationAsRead notificationId = (\<lambda>w.
     (w\<lparr>notifications :=
          updateOne (\<lambda>(i, n). i = StrId notificationId) (\<lambda>(i, n). (i, n\<lparr>read := True\<rparr>))
            (notifications w)\<rparr>,
      Inr ()))"

definition updateNotificationPreferences :: "string \<Rightarrow> notificationPreferences \<Rightarrow> unit io" where
  "updateNotificationPreferences uid preferences = (\<lambda>w.
     (w\<lparr>users :=
          updateOne (\<lambda>(i, u). i = StrId uid)
            (\<lambda>(i, u). (i, u\<lparr>notificationPrefs := Some preferences\<rparr>))
            (users w)\<rparr>,
      Inr ()))"

text \<open>The query \<open>_id: { $in: userIds }\<close> with a list of strings.\<close>

definition id_in :: "string list \<Rightarrow> doc_id \<Rightarrow> bool" where
  "id_in userIds i = (case i of ObjectId hex \<Rightarrow> False | StrId s \<Rightarrow> s \<in> set userIds)"

definition createBulkNotifications ::
  "env \<Rightarrow> string list \<Rightarrow> NotificationType \<Rightarrow> string \<Rightarrow> string \<Rightarrow> metadata option
     \<Rightarrow> notification list io"
where
  "createBulkNotifications e userIds ty ttl msg md =
     io_bind
       (io_map (\<lambda>uid. io_bind (new_Date e) (\<lambda>now. io_return
          \<lparr>userId = uid, ntype = ty, title = ttl, message = msg, read = False,
           createdAt = now, meta = md\<rparr>)) userIds) (\<lambda>notifs.
     io_bind (notifications_insertMany e notifs) (\<lambda>_.
     io_bind (users_find (\<lambda>(i, u). id_in userIds i \<and> email_not_disabled u)) (\<lambda>found.
     io_bind
       (io_forEach found (\<lambda>(i, u).
          case email u of
            None \<Rightarrow> io_return ()
          | Some addr \<Rightarrow>
              if addr \<noteq> []
              then io_try (sendEmail e addr ttl (notification_html 10 ttl msg))
                     (\<lambda>err. console_error (''Failed to send email to '' @ addr @ '':''))
              else io_return ()))
       (\<lambda>_. io_return notifs))))"

subsection \<open>Interest matcher\<close>

definition categoryToBidderType :: "(string \<times> string list) list" where
  "categoryToBidderType =
     [(''Construction'', [''CONTRACTOR'']),
      (''Infrastructure'', [''CONTRACTOR'']),
      (''Renovation'', [''CONTRACTOR'']),
      (''Software Development'', [''DEVELOPER'']),
      (''IT Services'', [''DEVELOPER'']),
      (''Digital Solutions'', [''DEVELOPER'']),
      (''Technology'', [''DEVELOPER'']),
      (''Equipment'', [''SUPPLIER'']),
      (''Materials'', [''SUPPLIER'']),
      (''Goods'', [''SUPPLIER'']),
      (''Supply Chain'', [''SUPPLIER'']),
      (''Professional Services'', [''CONSULTANT'']),
      (''Advisory'', [''CONSULTANT'']),
      (''Design'', [''CONSULTANT'']),
      (''Consulting'', [''CONSULTANT''])]"

text \<open>The test of one table entry against the category and, if truthy, the sector.\<close>

definition entry_matches :: "string \<Rightarrow> string option \<Rightarrow> string \<Rightarrow> bool" where
  "entry_matches tenderCategory tenderSector category =
     (includes_str (toLowerCase tenderCategory) (toLowerCase category) \<or>
      (case tenderSector of
         None \<Rightarrow> False
       | Some s \<Rightarrow> s \<noteq> [] \<and> includes_str (toLowerCase s) (toLowerCase category)))"

text \<open>The loop over the table: the types of every matching entry, pushed in table order.\<close>

definition matchedBidderTypes :: "string \<Rightarrow> string option \<Rightarrow> string list" where
  "matchedBidderTypes tenderCategory tenderSector =
     foldl (\<lambda>acc (category, bidderTypes).
              if entry_matches tenderCategory tenderSector category
              then acc @ bidderTypes else acc)
       [] categoryToBidderType"

definition relevantBidderTypes :: "string \<Rightarrow> string option \<Rightarrow> string list" where
  "relevantBidderTypes tenderCategory tenderSector =
     (if length (matchedBidderTypes tenderCategory tenderSector) = 0
      then [''CONTRACTOR'', ''DEVELOPER'', ''SUPPLIER'', ''CONSULTANT'']
      else matchedBidderTypes tenderCategory tenderSector)"

definition getInterestedBidders :: "string \<Rightarrow> string option \<Rightarrow> string list io" where
  "getInterestedBidders tenderCategory tenderSector =
     io_bind
       (users_find (\<lambda>(i, u).
          userType u = ''bidder'' \<and>
          (case bidderType u of
             None \<Rightarrow> False
           | Some t \<Rightarrow> t \<in> set (relevantBidderTypes tenderCategory tenderSector)) \<and>
          isVerified u = True))
       (\<lambda>bidders. io_return (map (\<lambda>(i, u). toString i) bidders))"

section \<open>HTTP responses\<close>

datatype json =
    ErrorJson string
  | SignupJson string bool "string option"
  | ProjectsJson "(doc_id \<times> project) list" bool "string option"
  | ProjectCreatedJson string doc_id

type_synonym response = "nat \<times> json"

text \<open>The string behind a field once it has been checked to be truthy.\<close>

definition str :: "string option \<Rightarrow> string" where
  "str v = (case v of None \<Rightarrow> [] | Some s \<Rightarrow> s)"

section \<open>Signup (app/api/auth/signup/route.ts)\<close>

text \<open>
  The JSON body of a signup request, each field a string or absent. A request whose body
  is not JSON is \<open>None\<close>: \<open>request.json()\<close> raises.
\<close>

record signup_body =
  sb_email :: "string option"
  sb_password :: "string option"
  sb_companyName :: "string option"
  sb_userType :: "string option"
  sb_bidderType :: "string option"

definition validBidderTypes :: "string list" where
  "validBidderTypes = [''CONTRACTOR'', ''DEVELOPER'', ''SUPPLIER'', ''CONSULTANT'', ''BUYER'']"

definition gen_token :: "env \<Rightarrow> string io" where
  "gen_token e = (\<lambda>w. (w\<lparr>tick := tick w + 1\<rparr>, Inr (generateVerificationToken e (tick w))))"

definition signup_try :: "env \<Rightarrow> signup_body option \<Rightarrow> response io" where
  "signup_try e req =
     (case req of
        None \<Rightarrow> io_throw JsonParseError
      | Some body \<Rightarrow>
          if \<not> truthy (sb_email body) \<or> \<not> truthy (sb_password body) \<or>
             \<not> truthy (sb_companyName body) \<or> \<not> truthy (sb_userType body)
          then io_return (400, ErrorJson ''All fields are required'')
          else if str (sb_userType body) \<notin> set [''tender'', ''bidder'']
          then io_return (400, ErrorJson ''Invalid user type'')
          else if str (sb_userType body) = ''bidder'' \<and> \<not> truthy (sb_bidderType body)
          then io_return (400, ErrorJson ''Bidder type is required for bidder accounts'')
          else if str (sb_userType body) = ''bidder'' \<and>
                  str (sb_bidderType body) \<notin> set validBidderTypes
          then io_return (400, ErrorJson ''Invalid bidder type'')
          else if length (str (sb_password body)) < 8
          then io_return (400, ErrorJson ''Password must be at least 8 characters'')
          else
            io_bind (users_findOne (\<lambda>(i, u). email u = sb_email body)) (\<lambda>existingUser.
            if existingUser \<noteq> None
            then io_return (400, ErrorJson ''User already exists'')
            else
              io_bind (gen_token e) (\<lambda>verificationToken.
              io_bind (new_Date e) (\<lambda>now.
              io_bind (new_Date e) (\<lambda>created.
              io_bind (new_Date e) (\<lambda>updated.
              let newUser =
                    \<lparr>email = sb_email body,
                     password = hashPassword e (str (sb_password body)),
                     companyName = str (sb_companyName body),
                     userType = str (sb_userType body),
                     bidderType =
                       (if str (sb_userType body) = ''bidder'' then sb_bidderType body else None),
                     isVerified = False,
                     verificationToken = verificationToken,
                     verificationExpires = now + 24 * 60 * 60 * 1000,
                     notificationPrefs =
                       Some \<lparr>pref_email = Some True, pref_inApp = Some True,
                             pref_push = Some False\<rparr>,
                     u_createdAt = created,
                     u_updatedAt = updated\<rparr>
              in
              io_bind (users_insertOne e newUser) (\<lambda>insertedId.
              io_bind (users_findOne (\<lambda>(i, u). i = insertedId)) (\<lambda>storedUser.
              io_try
                (io_bind
                   (sendVerificationEmail e (str (sb_email body)) verificationToken
                      (str (sb_companyName body))) (\<lambda>_.
                 io_bind
                   (createNotification e (toString insertedId) SIGNUP_COMPLETE
                      ''Welcome to TenderChain!''
                      (''Welcome '' @ str (sb_companyName body) @
                       ''! Your account has been created successfully. '' @
                       ''Please verify your email to get started.'')
                      (Some \<lparr>md_projectId = None, md_bidId = None, md_tenderId = None,
                             md_profileId = Some (toString insertedId)\<rparr>)) (\<lambda>_.
                 io_return
                   (200, SignupJson
                      (''User created successfully. '' @
                       ''Please check your email for verification.'') True None))))
                (\<lambda>emailError.
                   io_bind (console_error ''User created but email failed to send:'') (\<lambda>_.
                   io_return
                     (200, SignupJson
                        (''User created successfully, but there was an issue sending the '' @
                         ''verification email. You can request a new verification email '' @
                         ''from the login page.'')
                        False (Some ''Email delivery failed''))))))))))))"

definition signup_POST :: "env \<Rightarrow> signup_body option \<Rightarrow> response io" where
  "signup_POST e req =
     io_try (signup_try e req)
       (\<lambda>err. io_bind (console_error ''Signup error:'') (\<lambda>_.
          io_return (500, ErrorJson ''Internal server error'')))"

section \<open>Projects (app/api/projects/route.ts)\<close>

subsection \<open>GET\<close>

text \<open>
  The query parameters. \<open>q_limit\<close> is the number \<open>parseInt\<close> reads from the \<open>limit\<close>
  parameter, \<open>None\<close> when the parameter is absent or empty; the model covers the requests
  where it is a natural number. A cursor limited to \<open>0\<close> is not limited.
\<close>

record projects_query =
  q_status :: "string option"
  q_category :: "string option"
  q_limit :: "nat option"
  q_userType :: "string option"
  q_bidderType :: "string option"

definition categoryFilters :: "(string \<times> string list) list" where
  "categoryFilters =
     [(''CONTRACTOR'',
         [''Construction'', ''Infrastructure'', ''Renovation'', ''Maintenance'', ''Civil Works'']),
      (''DEVELOPER'',
         [''Software Development'', ''IT Services'', ''Digital Solutions'', ''Technology'',
          ''Web Development'']),
      (''SUPPLIER'',
         [''Equipment'', ''Materials'', ''Goods'', ''Supply Chain'', ''Procurement'']),
      (''CONSULTANT'',
         [''Professional Services'', ''Advisory'', ''Design'', ''Consulting'', ''Management''])]"

text \<open>
  \<open>categoryFilters[bidderType] || []\<close> followed by the test \<open>length > 0\<close> and, past it,
  \<open>join\<close>. A name that is no key of the table but a method every object inherits with
  at least one parameter passes the test and has no \<open>join\<close>: the handler raises.
\<close>

definition inherited_with_parameters :: "string list" where
  "inherited_with_parameters =
     [''constructor'', ''hasOwnProperty'', ''isPrototypeOf'', ''propertyIsEnumerable'',
      ''__defineGetter__'', ''__defineSetter__'', ''__lookupGetter__'', ''__lookupSetter__'']"

definition lookup_categoryFilters :: "string \<Rightarrow> error + string list" where
  "lookup_categoryFilters bt =
     (case map_of categoryFilters bt of
        Some cs \<Rightarrow> Inr cs
      | None \<Rightarrow>
          if bt \<in> set inherited_with_parameters
          then Inl (TypeError ''relevantCategories.join is not a function'')
          else Inr [])"

text \<open>
  The query \<open>$regex: relevantCategories.join('|'), $options: 'i'\<close>: the names hold
  letters and spaces only, so the pattern matches a text where one of them occurs,
  whatever the case.
\<close>

definition regex_any_i :: "string list \<Rightarrow> string \<Rightarrow> bool" where
  "regex_any_i names s = list_ex (\<lambda>k. includes_str (toLowerCase s) (toLowerCase k)) names"

definition limit_docs :: "nat \<Rightarrow> 'a list \<Rightarrow> 'a list" where
  "limit_docs n ds = (if n = 0 then ds else take n ds)"

text \<open>
  The three parts of the query filter: the status (the request's, else open or active),
  the category (when the request names one), and the \<open>$or\<close> of the role-based
  filtering (when there are relevant categories).
\<close>

definition status_filter :: "string option \<Rightarrow> project \<Rightarrow> bool" where
  "status_filter status p =
     (if truthy status then p_status p = str status
      else p_status p \<in> set [''open'', ''active''])"

definition category_filter :: "string option \<Rightarrow> project \<Rightarrow> bool" where
  "category_filter category p =
     (if truthy category then p_category p = str category else True)"

definition or_filter :: "string list \<Rightarrow> project \<Rightarrow> bool" where
  "or_filter relevantCategories p =
     (if length relevantCategories > 0
      then p_category p \<in> set relevantCategories \<or>
           regex_any_i relevantCategories (p_category p) \<or>
           (case p_specifications p of
              None \<Rightarrow> False
            | Some s \<Rightarrow> regex_any_i relevantCategories s)
      else True)"

definition projects_find_sorted ::
  "(project \<Rightarrow> bool) \<Rightarrow> nat \<Rightarrow> (doc_id \<times> project) list io"
where
  "projects_find_sorted P limit = (\<lambda>w.
     (w, Inr (limit_docs limit
                (sort_key (\<lambda>(i, p). - int (p_createdAt p))
                   (filter (\<lambda>(i, p). P p) (projects w))))))"

definition projects_GET_try :: "projects_query \<Rightarrow> response io" where
  "projects_GET_try q =
     (let status = q_status q;
          category = q_category q;
          limit = (case q_limit q of None \<Rightarrow> 50 | Some n \<Rightarrow> n);
          role_based = (q_userType q = Some ''bidder'' \<and> truthy (q_bidderType q))
      in
      io_bind
        (if role_based
         then (case lookup_categoryFilters (str (q_bidderType q)) of
                 Inl err \<Rightarrow> io_throw err
               | Inr relevantCategories \<Rightarrow> io_return relevantCategories)
         else io_return []) (\<lambda>relevantCategories.
      io_bind
        (projects_find_sorted
           (\<lambda>p. status_filter status p \<and> category_filter category p \<and>
                or_filter relevantCategories p) limit) (\<lambda>found.
      io_return
        (200, ProjectsJson found role_based
                (if truthy (q_bidderType q) then q_bidderType q else None)))))"

definition projects_GET :: "projects_query \<Rightarrow> response io" where
  "projects_GET q =
     io_try (projects_GET_try q)
       (\<lambda>err. io_bind (console_error ''Error fetching projects:'') (\<lambda>_.
          io_return (500, ErrorJson ''Internal server error'')))"

subsection \<open>POST\<close>

record project_body =
  pb_title :: "string option"
  pb_description :: "string option"
  pb_budget :: "string option"
  pb_location :: "string option"
  pb_deadline :: "string option"
  pb_category :: "string option"
  pb_duration :: "string option"
  pb_specifications :: "string option"
  pb_requirements :: "string list option"
  pb_documents :: "string list option"
  pb_hasFiles :: "bool option"

record project_request =
  authorization :: "string option"
  json_body :: "project_body option"

text \<open>The record built from the body and the token, stamped with two clock readings.\<close>

definition newProject :: "token_payload \<Rightarrow> project_body \<Rightarrow> nat \<Rightarrow> nat \<Rightarrow> project" where
  "newProject payload body created updated =
     \<lparr>p_title = str (pb_title body),
      p_description = str (pb_description body),
      p_budget = str (pb_budget body),
      p_location = pb_location body,
      p_deadline = str (pb_deadline body),
      p_category = str (pb_category body),
      p_duration = pb_duration body,
      p_specifications = pb_specifications body,
      p_requirements = (case pb_requirements body of None \<Rightarrow> [] | Some r \<Rightarrow> r),
      p_documents = (case pb_documents body of None \<Rightarrow> [] | Some d \<Rightarrow> d),
      p_hasFiles = (case pb_hasFiles body of None \<Rightarrow> False | Some h \<Rightarrow> h),
      p_status = ''open'',
      p_bidCount = 0,
      p_progress = 0,
      p_tenderId = pl_userId payload,
      p_createdBy = pl_userId payload,
      p_tenderCompany = pl_companyName payload,
      p_createdAt = created,
      p_updatedAt = updated\<rparr>"

text \<open>The two message templates of the handler.\<close>

definition project_created_message :: "string \<Rightarrow> string" where
  "project_created_message ttl =
     ''Your project '' @ [CHR 0x22] @ ttl @ [CHR 0x22] @
     '' has been created and is now open for bids.''"

definition new_tender_message :: "string \<Rightarrow> string \<Rightarrow> string \<Rightarrow> string" where
  "new_tender_message ttl category budget =
     ''A new tender '' @ [CHR 0x22] @ ttl @ [CHR 0x22] @ '' in '' @ category @
     '' category is now available. Budget: $'' @ budget"

text \<open>
  The block \<open>try { ... } catch (notificationError) { ... }\<close> of the handler: notify the
  interested bidders, log whatever is raised.
\<close>

definition notify_interested_bidders :: "env \<Rightarrow> project_body \<Rightarrow> doc_id \<Rightarrow> unit io" where
  "notify_interested_bidders e body insertedId =
     io_try
       (io_bind
          (getInterestedBidders (str (pb_category body)) (pb_specifications body))
          (\<lambda>interestedBidders.
             if length interestedBidders > 0
             then
               io_bind
                 (createBulkNotifications e interestedBidders NEW_TENDER_AVAILABLE
                    ''New Tender Available''
                    (new_tender_message (str (pb_title body)) (str (pb_category body))
                       (str (pb_budget body)))
                    (Some \<lparr>md_projectId = Some (toString insertedId), md_bidId = None,
                           md_tenderId = None, md_profileId = None\<rparr>))
                 (\<lambda>_. io_return ())
             else io_return ()))
       (\<lambda>notificationError. console_error ''Error sending notifications to bidders:'')"

definition projects_POST_try :: "env \<Rightarrow> project_request \<Rightarrow> response io" where
  "projects_POST_try e req =
     (if \<not> truthy (authorization req) \<or> \<not> startsWith (str (authorization req)) ''Bearer ''
      then io_return (401, ErrorJson ''Unauthorized'')
      else
        (case verifyToken e (drop 7 (str (authorization req))) of
           None \<Rightarrow> io_return (401, ErrorJson ''Unauthorized'')
         | Some payload \<Rightarrow>
             if pl_userType payload \<noteq> ''tender''
             then io_return (401, ErrorJson ''Unauthorized'')
             else
               (case json_body req of
                  None \<Rightarrow> io_throw JsonParseError
                | Some body \<Rightarrow>
                    if \<not> truthy (pb_title body) \<or> \<not> truthy (pb_description body) \<or>
                       \<not> truthy (pb_budget body) \<or> \<not> truthy (pb_deadline body) \<or>
                       \<not> truthy (pb_category body)
                    then io_return (400, ErrorJson ''Missing required fields'')
                    else
                      io_bind (new_Date e) (\<lambda>created.
                      io_bind (new_Date e) (\<lambda>updated.
                      io_bind (projects_insertOne e (newProject payload body created updated))
                        (\<lambda>insertedId.
                      io_bind
                        (createNotification e (pl_userId payload) PROJECT_CREATED
                           ''Project Created Successfully''
                           (project_created_message (str (pb_title body)))
                           (Some \<lparr>md_projectId = Some (toString insertedId), md_bidId = None,
                                  md_tenderId = None, md_profileId = None\<rparr>)) (\<lambda>_.
                      io_bind (notify_interested_bidders e body insertedId) (\<lambda>_.
                      io_return
                        (200, ProjectCreatedJson ''Project created successfully''
                                insertedId)))))))))"

definition projects_POST :: "env \<Rightarrow> project_request \<Rightarrow> response io" where
  "projects_POST e req =
     io_try (projects_POST_try e req)
       (\<lambda>err. io_bind (console_error ''Error creating project:'') (\<lambda>_.
          io_return (500, ErrorJson ''Internal server error'')))"

section \<open>Concrete environments and stores\<close>

text \<open>
  Small instances on which the handlers are evaluated: a clock, ObjectIds that read
  \<open>a\<close>, \<open>aa\<close>, \<open>aaa\<close>, ..., one bearer token of a tender account, and a gateway that
  delivers every email (\<open>env_up\<close>) or none (\<open>env_down\<close>).
\<close>

definition env_up :: env where
  "env_up =
     \<lparr>clock = (\<lambda>n. 1000 + n),
      oid = (\<lambda>n. replicate (Suc n) (CHR ''a'')),
      gateway = (\<lambda>sent m. True),
      verifyToken = (\<lambda>t. if t = ''t1''
                          then Some \<lparr>pl_userId = ''u1'', pl_userType = ''tender'',
                                     pl_companyName = ''Acme''\<rparr>
                          else None),
      hashPassword = (\<lambda>p. ''#'' @ p),
      generateVerificationToken = (\<lambda>n. replicate (Suc n) (CHR ''v''))\<rparr>"

definition env_down :: env where
  "env_down = env_up\<lparr>gateway := (\<lambda>sent m. False)\<rparr>"

definition account :: "string \<Rightarrow> string \<Rightarrow> string option \<Rightarrow> bool \<Rightarrow> user" where
  "account addr ut bt verified =
     \<lparr>email = Some addr, password = ''#secret12'', companyName = ''Acme'', userType = ut,
      bidderType = bt, isVerified = verified, verificationToken = ''v'',
      verificationExpires = 0,
      notificationPrefs =
        Some \<lparr>pref_email = Some True, pref_inApp = Some True, pref_push = Some False\<rparr>,
      u_createdAt = 0, u_updatedAt = 0\<rparr>"

definition store :: "(doc_id \<times> user) list \<Rightarrow> world" where
  "store us =
     \<lparr>users = us, notifications = [], projects = [], attempts = [], outbox = [], log = [],
      tick = 0\<rparr>"

definition bidder_body :: signup_body where
  "bidder_body =
     \<lparr>sb_email = Some ''a@x.com'', sb_password = Some ''password1'',
      sb_companyName = Some ''Acme'', sb_userType = Some ''bidder'',
      sb_bidderType = Some ''CONTRACTOR''\<rparr>"


definition posting :: "string \<Rightarrow> string \<Rightarrow> nat \<Rightarrow> project" where
  "posting ttl st created =
     \<lparr>p_title = ttl, p_description = ''works'', p_budget = ''1000'', p_location = None,
      p_deadline = ''2026-01-31'', p_category = ''Construction'', p_duration = None,
      p_specifications = None, p_requirements = [], p_documents = [], p_hasFiles = False,
      p_status = st, p_bidCount = 0, p_progress = 0, p_tenderId = ''u1'',
      p_createdBy = ''u1'', p_tenderCompany = ''Acme'', p_createdAt = created,
      p_updatedAt = created\<rparr>"

definition no_parameters :: projects_query where
  "no_parameters =
     \<lparr>q_status = None, q_category = None, q_limit = None, q_userType = None,
      q_bidderType = None\<rparr>"

definition creation_request :: project_request where
  "creation_request =
     \<lparr>authorization = Some ''Bearer t1'',
      json_body = Some
        \<lparr>pb_title = Some ''Bridge'', pb_description = Some ''works'',
         pb_budget = Some ''1000'', pb_location = None, pb_deadline = Some ''2026-01-31'',
         pb_category = Some ''Catering'', pb_duration = None, pb_specifications = None,
         pb_requirements = None, pb_documents = None, pb_hasFiles = None\<rparr>\<rparr>"

section \<open>The gateway over a sequence of emails\<close>

text \<open>
  The emails of \<open>ms\<close> that the gateway delivers, and those it refuses, when they are
  handed over one after the other, \<open>sent\<close> being the emails attempted before.
\<close>

fun delivered :: "env \<Rightarrow> mail list \<Rightarrow> mail list \<Rightarrow> mail list" where
  "delivered e sent [] = []"
| "delivered e sent (m # ms) =
     (if gateway e sent m then [m] else []) @ delivered e (sent @ [m]) ms"

fun refused :: "env \<Rightarrow> mail list \<Rightarrow> mail list \<Rightarrow> mail list" where
  "refused e sent [] = []"
| "refused e sent (m # ms) =
     (if gateway e sent m then [] else [m]) @ refused e (sent @ [m]) ms"

fun recipient :: "mail \<Rightarrow> string" where
  "recipient (Email to subject html) = to"
| "recipient (VerificationEmail to tok company) = to"

text \<open>
  The emails a bulk notification owes: one to every user of the selection that has a
  non-empty address, in store order.
\<close>

definition bulk_mails :: "string \<Rightarrow> string \<Rightarrow> (doc_id \<times> user) list \<Rightarrow> mail list" where
  "bulk_mails ttl msg us =
     map (\<lambda>(i, u). Email (str (email u)) ttl (notification_html 10 ttl msg))
       (filter (\<lambda>(i, u). truthy (email u)) us)"

text \<open>
  The email \<open>createNotification\<close> owes for a notification to \<open>uid\<close>: one, when a user
  is stored under that string as id, with a non-empty address, who has not switched email
  notifications off.
\<close>

definition notification_mail ::
  "string \<Rightarrow> string \<Rightarrow> string \<Rightarrow> (doc_id \<times> user) list \<Rightarrow> mail option"
where
  "notification_mail uid ttl msg us =
     (case findOne (\<lambda>(i, u). i = StrId uid) us of
        None \<Rightarrow> None
      | Some (i, u) \<Rightarrow>
          if truthy (email u) \<and> email_not_disabled u
          then Some (Email (str (email u)) ttl (notification_html 6 ttl msg))
          else None)"

text \<open>
  The checks of signup in the words of the specification: the four required fields are
  present, the user type is one of the two, a bidder names one of the five bidder types,
  the password has at least 8 characters, and no stored user has the email.
\<close>

definition signup_accepts :: "signup_body \<Rightarrow> world \<Rightarrow> bool" where
  "signup_accepts b w \<longleftrightarrow>
     truthy (sb_email b) \<and> truthy (sb_password b) \<and> truthy (sb_companyName b) \<and>
     truthy (sb_userType b) \<and>
     (str (sb_userType b) = ''tender'' \<or>
      str (sb_userType b) = ''bidder'' \<and> truthy (sb_bidderType b) \<and>
      str (sb_bidderType b) \<in> set validBidderTypes) \<and>
     8 \<le> length (str (sb_password b)) \<and>
     findOne (\<lambda>(i, u). email u = sb_email b) (users w) = None"

text \<open>The user record signup builds from an accepted body, read off the world it starts in.\<close>

definition signup_user :: "env \<Rightarrow> signup_body \<Rightarrow> world \<Rightarrow> user" where
  "signup_user e b w =
     \<lparr>email = sb_email b,
      password = hashPassword e (str (sb_password b)),
      companyName = str (sb_companyName b),
      userType = str (sb_userType b),
      bidderType = (if str (sb_userType b) = ''bidder'' then sb_bidderType b else None),
      isVerified = False,
      verificationToken = generateVerificationToken e (tick w),
      verificationExpires = clock e (tick w + 1) + 24 * 60 * 60 * 1000,
      notificationPrefs =
        Some \<lparr>pref_email = Some True, pref_inApp = Some True, pref_push = Some False\<rparr>,
      u_createdAt = clock e (tick w + 2),
      u_updatedAt = clock e (tick w + 3)\<rparr>"

text \<open>A collection all of whose documents carry an id the store generated.\<close>

definition generated_ids :: "(doc_id \<times> 'a) list \<Rightarrow> bool" where
  "generated_ids ds = list_all (\<lambda>(i, d). case i of ObjectId hex \<Rightarrow> True | StrId s \<Rightarrow> False) ds"

section \<open>Substring test\<close>

lemma startsWith_iff: "startsWith s k \<longleftrightarrow> (\<exists>post. s = k @ post)"
  by (induction s k rule: startsWith.induct) auto

lemma includes_iff: "includes_str s k \<longleftrightarrow> (\<exists>pre post. s = pre @ k @ post)"
proof (induction s)
  case Nil
  then show ?case by simp
next
  case (Cons c cs)
  show ?case
  proof
    assume "includes_str (c # cs) k"
    then consider "startsWith (c # cs) k" | "includes_str cs k" by auto
    then show "\<exists>pre post. c # cs = pre @ k @ post"
    proof cases
      case 1
      then obtain post where "c # cs = k @ post" by (auto simp: startsWith_iff)
      then have "c # cs = [] @ k @ post" by simp
      then show ?thesis by blast
    next
      case 2
      then obtain pre post where "cs = pre @ k @ post" using Cons.IH by blast
      then have "c # cs = (c # pre) @ k @ post" by simp
      then show ?thesis by blast
    qed
  next
    assume "\<exists>pre post. c # cs = pre @ k @ post"
    then obtain pre post where eq: "c # cs = pre @ k @ post" by blast
    show "includes_str (c # cs) k"
    proof (cases pre)
      case Nil
      with eq have "startsWith (c # cs) k" by (auto simp: startsWith_iff)
      then show ?thesis by simp
    next
      case (Cons p ps)
      with eq have "cs = ps @ k @ post" by simp
      then have "includes_str cs k" using Cons.IH by blast
      then show ?thesis by simp
    qed
  qed
qed

lemma occurs_ci_code: "occurs_ci k s \<longleftrightarrow> includes_str (toLowerCase s) (toLowerCase k)"
  by (simp add: occurs_ci_def includes_iff)

section \<open>Interest matcher\<close>

lemma foldl_push:
  "foldl (\<lambda>acc (c, ts). if P c then acc @ ts else acc) a xs =
     a @ concat (map snd (filter (\<lambda>(c, ts). P c) xs))"
  by (induction xs arbitrary: a) (auto split: prod.splits)

lemma matchedBidderTypes_eq:
  "matchedBidderTypes cat sector =
     concat (map snd (filter (\<lambda>(c, ts). entry_matches cat sector c) categoryToBidderType))"
  unfolding matchedBidderTypes_def by (simp add: foldl_push)

lemma entry_matches_iff:
  assumes "k \<noteq> []"
  shows "entry_matches cat sector k \<longleftrightarrow>
           occurs_ci k cat \<or> (\<exists>s. sector = Some s \<and> occurs_ci k s)"
proof (cases sector)
  case None
  then show ?thesis by (simp add: entry_matches_def occurs_ci_code)
next
  case (Some s)
  have "s = [] \<Longrightarrow> \<not> occurs_ci k s"
    using assms by (simp add: occurs_ci_def toLowerCase_def)
  with Some show ?thesis by (auto simp: entry_matches_def occurs_ci_code)
qed

lemma table_keys_nonempty: "(k, ts) \<in> set categoryToBidderType \<Longrightarrow> k \<noteq> [] \<and> ts \<noteq> []"
  by (auto simp: categoryToBidderType_def)

lemma getInterestedBidders_run:
  "getInterestedBidders cat sector w =
     (w, Inr (map (toString \<circ> fst) (filter (\<lambda>(i, u).
        userType u = ''bidder'' \<and>
        (\<exists>t. bidderType u = Some t \<and> t \<in> set (relevantBidderTypes cat sector)) \<and>
        isVerified u) (users w))))"
proof -
  have "filter (\<lambda>(i, u). userType u = ''bidder'' \<and>
           (case bidderType u of None \<Rightarrow> False
            | Some t \<Rightarrow> t \<in> set (relevantBidderTypes cat sector)) \<and> isVerified u = True)
          (users w) =
        filter (\<lambda>(i, u). userType u = ''bidder'' \<and>
           (\<exists>t. bidderType u = Some t \<and> t \<in> set (relevantBidderTypes cat sector)) \<and>
           isVerified u) (users w)"
    by (rule filter_cong) (auto split: option.splits)
  moreover have "map (\<lambda>(i, u). toString i) ys = map (toString \<circ> fst) ys"
    for ys :: "(doc_id \<times> user) list"
    by (rule map_cong) auto
  ultimately show ?thesis
    unfolding getInterestedBidders_def io_bind_def users_find_def io_return_def
    by (simp only: prod.case sum.case)
qed

lemma matched_subset_table:
  "set (matchedBidderTypes cat sector) \<subseteq> (\<Union>(k, ts) \<in> set categoryToBidderType. set ts)"
  unfolding matchedBidderTypes_eq by auto

text \<open>
  No category and no sector make the matcher select the type BUYER: neither the table nor
  the fallback list holds it.
\<close>

lemma relevantBidderTypes_no_buyer: "''BUYER'' \<notin> set (relevantBidderTypes cat sector)"
proof -
  have "''BUYER'' \<notin> (\<Union>(k, ts) \<in> set categoryToBidderType. set ts)"
    by (simp add: categoryToBidderType_def)
  with matched_subset_table [of cat sector]
  have "''BUYER'' \<notin> set (matchedBidderTypes cat sector)" by blast
  then show ?thesis by (simp add: relevantBidderTypes_def)
qed

text \<open>
  Without a matching keyword the matcher returns the verified bidders of the four types
  of the fallback list.
\<close>

lemma getInterestedBidders_fallback:
  assumes "\<And>k ts. (k, ts) \<in> set categoryToBidderType \<Longrightarrow>
      \<not> occurs_ci k cat \<and> (\<forall>s. sector = Some s \<longrightarrow> \<not> occurs_ci k s)"
  shows "getInterestedBidders cat sector w =
     (w, Inr (map (toString \<circ> fst) (filter (\<lambda>(i, u).
        userType u = ''bidder'' \<and>
        (\<exists>t. bidderType u = Some t \<and>
           t \<in> set [''CONTRACTOR'', ''DEVELOPER'', ''SUPPLIER'', ''CONSULTANT'']) \<and>
        isVerified u) (users w))))"
proof -
  have "filter (\<lambda>(c, ts). entry_matches cat sector c) categoryToBidderType = []"
    unfolding filter_empty_conv
    using assms entry_matches_iff table_keys_nonempty by fastforce
  then have "matchedBidderTypes cat sector = []"
    by (simp add: matchedBidderTypes_eq)
  then have "relevantBidderTypes cat sector =
      [''CONTRACTOR'', ''DEVELOPER'', ''SUPPLIER'', ''CONSULTANT'']"
    by (simp add: relevantBidderTypes_def)
  then show ?thesis
    unfolding getInterestedBidders_run by simp
qed

text \<open>
  C1. A category in which no keyword of the table occurs makes the matcher fall back to
  the four types CONTRACTOR, DEVELOPER, SUPPLIER and CONSULTANT; BUYER, which signup
  accepts as a bidder type, is not among them. Evaluated on a store whose only user is a
  verified bidder of type BUYER and on the category \<open>Catering\<close>: no keyword occurs, and
  the matcher returns nobody.
\<close>

theorem getInterestedBidders_fallback_omits_buyer:
  "''BUYER'' \<in> set validBidderTypes \<and>
   filter (\<lambda>(k, ts). occurs_ci k ''Catering'') categoryToBidderType = [] \<and>
   relevantBidderTypes ''Catering'' None =
     [''CONTRACTOR'', ''DEVELOPER'', ''SUPPLIER'', ''CONSULTANT''] \<and>
   getInterestedBidders ''Catering'' None
     (store [(ObjectId ''u7'', account ''b@x.com'' ''bidder'' (Some ''BUYER'') True)]) =
     (store [(ObjectId ''u7'', account ''b@x.com'' ''bidder'' (Some ''BUYER'') True)], Inr [])"
proof -
  have valid: "''BUYER'' \<in> set validBidderTypes"
    by (simp add: validBidderTypes_def)
  have none: "filter (\<lambda>(k, ts). occurs_ci k ''Catering'') categoryToBidderType = []"
    unfolding occurs_ci_code by code_simp
  have fallback: "relevantBidderTypes ''Catering'' None =
      [''CONTRACTOR'', ''DEVELOPER'', ''SUPPLIER'', ''CONSULTANT'']"
    by code_simp
  have run: "getInterestedBidders ''Catering'' None
     (store [(ObjectId ''u7'', account ''b@x.com'' ''bidder'' (Some ''BUYER'') True)]) =
     (store [(ObjectId ''u7'', account ''b@x.com'' ''bidder'' (Some ''BUYER'') True)], Inr [])"
    unfolding getInterestedBidders_run fallback by (simp add: store_def account_def)
  from valid none fallback run show ?thesis by blast
qed

lemma matched_set:
  "set (matchedBidderTypes cat sector) =
     {t. \<exists>k ts. (k, ts) \<in> set categoryToBidderType \<and> t \<in> set ts \<and>
          (occurs_ci k cat \<or> (\<exists>s. sector = Some s \<and> occurs_ci k s))}"
proof -
  have "set (matchedBidderTypes cat sector) =
      {t. \<exists>k ts. (k, ts) \<in> set categoryToBidderType \<and> entry_matches cat sector k \<and> t \<in> set ts}"
    unfolding matchedBidderTypes_eq by force
  also have "\<dots> = {t. \<exists>k ts. (k, ts) \<in> set categoryToBidderType \<and> t \<in> set ts \<and>
          (occurs_ci k cat \<or> (\<exists>s. sector = Some s \<and> occurs_ci k s))}"
    using table_keys_nonempty entry_matches_iff by blast
  finally show ?thesis .
qed

lemma matched_nonempty:
  assumes "(k, ts) \<in> set categoryToBidderType"
    and "occurs_ci k cat \<or> (\<exists>s. sector = Some s \<and> occurs_ci k s)"
  shows "matchedBidderTypes cat sector \<noteq> []"
proof -
  from assms(1) obtain t where "t \<in> set ts"
    using table_keys_nonempty by (cases ts) auto
  with assms have "t \<in> set (matchedBidderTypes cat sector)"
    unfolding matched_set by blast
  then show ?thesis by auto
qed

text \<open>
  C4. When a keyword of the table occurs, as a case-insensitive substring, in the
  category or in the sector (if one is given), the matcher returns exactly the ids, in
  store order, of the users that are verified, have userType \<open>bidder\<close> and whose
  bidderType is a type the table gives to one of the keywords that occur; the store is
  left as it was.
\<close>

theorem getInterestedBidders_keyword:
  assumes "(k0, ts0) \<in> set categoryToBidderType"
    and "occurs_ci k0 cat \<or> (\<exists>s. sector = Some s \<and> occurs_ci k0 s)"
  shows "getInterestedBidders cat sector w =
     (w, Inr (map (toString \<circ> fst) (filter (\<lambda>(i, u).
        isVerified u \<and> userType u = ''bidder'' \<and>
        (\<exists>k ts t. (k, ts) \<in> set categoryToBidderType \<and>
           (occurs_ci k cat \<or> (\<exists>s. sector = Some s \<and> occurs_ci k s)) \<and>
           t \<in> set ts \<and> bidderType u = Some t)) (users w))))"
proof -
  have rel: "relevantBidderTypes cat sector = matchedBidderTypes cat sector"
    using matched_nonempty [OF assms] by (simp add: relevantBidderTypes_def)
  have "filter (\<lambda>(i, u). userType u = ''bidder'' \<and>
          (\<exists>t. bidderType u = Some t \<and> t \<in> set (relevantBidderTypes cat sector)) \<and>
          isVerified u) (users w) =
        filter (\<lambda>(i, u). isVerified u \<and> userType u = ''bidder'' \<and>
          (\<exists>k ts t. (k, ts) \<in> set categoryToBidderType \<and>
             (occurs_ci k cat \<or> (\<exists>s. sector = Some s \<and> occurs_ci k s)) \<and>
             t \<in> set ts \<and> bidderType u = Some t)) (users w)"
    unfolding rel matched_set by (rule filter_cong) auto
  then show ?thesis
    unfolding getInterestedBidders_run by simp
qed

theorem getInterestedBidders_keyword_witness:
  "getInterestedBidders ''Road Construction'' None
     (store [(ObjectId ''u1'', account ''a@x.com'' ''bidder'' (Some ''CONTRACTOR'') True),
             (ObjectId ''u2'', account ''b@x.com'' ''bidder'' (Some ''DEVELOPER'') True),
             (ObjectId ''u3'', account ''c@x.com'' ''bidder'' (Some ''CONTRACTOR'') False),
             (ObjectId ''u4'', account ''d@x.com'' ''tender'' None True)]) =
     (store [(ObjectId ''u1'', account ''a@x.com'' ''bidder'' (Some ''CONTRACTOR'') True),
             (ObjectId ''u2'', account ''b@x.com'' ''bidder'' (Some ''DEVELOPER'') True),
             (ObjectId ''u3'', account ''c@x.com'' ''bidder'' (Some ''CONTRACTOR'') False),
             (ObjectId ''u4'', account ''d@x.com'' ''tender'' None True)],
      Inr [''u1''])"
proof -
  have entry: "(''Construction'', [''CONTRACTOR'']) \<in> set categoryToBidderType"
    by (simp add: categoryToBidderType_def)
  have occ: "occurs_ci ''Construction'' ''Road Construction''"
    unfolding occurs_ci_code by code_simp
  have only: "filter (\<lambda>(k, ts). occurs_ci k ''Road Construction'') categoryToBidderType =
      [(''Construction'', [''CONTRACTOR''])]"
    unfolding occurs_ci_code by code_simp
  have types: "(\<exists>k ts. (k, ts) \<in> set categoryToBidderType \<and>
        occurs_ci k ''Road Construction'' \<and> t \<in> set ts) \<longleftrightarrow> t = ''CONTRACTOR''" for t
  proof -
    have "(\<exists>k ts. (k, ts) \<in> set categoryToBidderType \<and>
        occurs_ci k ''Road Construction'' \<and> t \<in> set ts) \<longleftrightarrow>
        (\<exists>k ts. (k, ts) \<in> set (filter (\<lambda>(k, ts). occurs_ci k ''Road Construction'')
           categoryToBidderType) \<and> t \<in> set ts)"
      by auto
    then show ?thesis unfolding only by simp
  qed
  have sel: "(\<exists>k ts t. (k, ts) \<in> set categoryToBidderType \<and>
        (occurs_ci k ''Road Construction'' \<or> (\<exists>s. None = Some s \<and> occurs_ci k s)) \<and>
        t \<in> set ts \<and> b = Some t) \<longleftrightarrow> b = Some ''CONTRACTOR''" for b :: "string option"
    using types by auto
  show ?thesis
    using getInterestedBidders_keyword [OF entry, of "''Road Construction''" None, OF disjI1 [OF occ]]
    unfolding sel by (simp add: store_def account_def)
qed

section \<open>Running actions\<close>

lemma io_return_run: "io_return x w = (w, Inr x)"
  by (simp add: io_return_def)

lemma io_throw_run: "io_throw err w = (w, Inl err)"
  by (simp add: io_throw_def)

lemma io_bind_run:
  "io_bind m k w = (case m w of (w', Inl err) \<Rightarrow> (w', Inl err) | (w', Inr x) \<Rightarrow> k x w')"
  by (simp add: io_bind_def)

lemma io_try_run:
  "io_try m h w = (case m w of (w', Inl err) \<Rightarrow> h err w' | (w', Inr x) \<Rightarrow> (w', Inr x))"
  by (simp add: io_try_def)

lemma new_Date_run: "new_Date e w = (w\<lparr>tick := tick w + 1\<rparr>, Inr (clock e (tick w)))"
  by (simp add: new_Date_def)

lemma console_error_run: "console_error line w = (w\<lparr>log := log w @ [line]\<rparr>, Inr ())"
  by (simp add: console_error_def)

lemma send_run:
  "send e m w =
     (if gateway e (attempts w) m
      then (w\<lparr>attempts := attempts w @ [m], outbox := outbox w @ [m]\<rparr>, Inr ())
      else (w\<lparr>attempts := attempts w @ [m]\<rparr>, Inl (EmailSendError m)))"
  by (simp add: send_def)

lemma sendEmail_run: "sendEmail e to subject html w = send e (Email to subject html) w"
  by (simp add: sendEmail_def)

lemma sendVerificationEmail_run:
  "sendVerificationEmail e to tok company w = send e (VerificationEmail to tok company) w"
  by (simp add: sendVerificationEmail_def)

lemmas io_run =
  io_return_run io_throw_run io_bind_run io_try_run new_Date_run console_error_run
  sendEmail_run sendVerificationEmail_run

section \<open>Bulk notifications\<close>

lemma stamp_run:
  assumes "\<And>uid w. f uid w = (w\<lparr>tick := tick w + 1\<rparr>, Inr (mk uid (clock e (tick w))))"
  shows "io_map f ids w =
     (w\<lparr>tick := tick w + length ids\<rparr>,
      Inr (map (\<lambda>(k, uid). mk uid (clock e k)) (enumerate (tick w) ids)))"
proof (induction ids arbitrary: w)
  case Nil
  then show ?case by (simp add: io_return_run)
next
  case (Cons uid ids)
  show ?case
    by (simp add: io_bind_run io_return_run assms [of uid w] Cons.IH)
qed

lemma forEach_run:
  assumes "\<And>i u w. body (i, u) w =
     (if truthy (email u)
      then (if gateway e (attempts w) (mk u)
            then (w\<lparr>attempts := attempts w @ [mk u], outbox := outbox w @ [mk u]\<rparr>, Inr ())
            else (w\<lparr>attempts := attempts w @ [mk u], log := log w @ [line (mk u)]\<rparr>, Inr ()))
      else (w, Inr ()))"
  shows "io_forEach us body w =
     (w\<lparr>attempts :=
          attempts w @ map (\<lambda>(i, u). mk u) (filter (\<lambda>(i, u). truthy (email u)) us),
        outbox :=
          outbox w @
          delivered e (attempts w)
            (map (\<lambda>(i, u). mk u) (filter (\<lambda>(i, u). truthy (email u)) us)),
        log :=
          log w @
          map line
            (refused e (attempts w)
               (map (\<lambda>(i, u). mk u) (filter (\<lambda>(i, u). truthy (email u)) us)))\<rparr>,
      Inr ())"
proof (induction us arbitrary: w)
  case Nil
  then show ?case by (simp add: io_return_run)
next
  case (Cons iu us)
  obtain i u where iu: "iu = (i, u)" by (cases iu)
  show ?case
    unfolding iu by (simp add: io_bind_run assms [of i u w] Cons.IH)
qed

lemma bulk_body_run:
  "(case email u of
      None \<Rightarrow> io_return ()
    | Some addr \<Rightarrow>
        if addr \<noteq> []
        then io_try (sendEmail e addr ttl html)
               (\<lambda>err. console_error (''Failed to send email to '' @ addr @ '':''))
        else io_return ()) w =
   (if truthy (email u)
    then (if gateway e (attempts w) (Email (str (email u)) ttl html)
          then (w\<lparr>attempts := attempts w @ [Email (str (email u)) ttl html],
                  outbox := outbox w @ [Email (str (email u)) ttl html]\<rparr>, Inr ())
          else (w\<lparr>attempts := attempts w @ [Email (str (email u)) ttl html],
                  log := log w @
                    [''Failed to send email to '' @
                     recipient (Email (str (email u)) ttl html) @ '':'']\<rparr>, Inr ()))
    else (w, Inr ()))"
  by (cases "email u") (simp_all add: truthy_def str_def io_run send_run)

lemma bulk_loop_run:
  "io_forEach us (\<lambda>(i, u).
      case email u of
        None \<Rightarrow> io_return ()
      | Some addr \<Rightarrow>
          if addr \<noteq> []
          then io_try (sendEmail e addr ttl (notification_html 10 ttl msg))
                 (\<lambda>err. console_error (''Failed to send email to '' @ addr @ '':''))
          else io_return ()) w =
     (w\<lparr>attempts := attempts w @ bulk_mails ttl msg us,
        outbox := outbox w @ delivered e (attempts w) (bulk_mails ttl msg us),
        log := log w @
          map (\<lambda>m. ''Failed to send email to '' @ recipient m @ '':'')
            (refused e (attempts w) (bulk_mails ttl msg us))\<rparr>,
      Inr ())"
  unfolding bulk_mails_def
  by (rule forEach_run) (simp only: prod.case bulk_body_run)

lemma notifications_insertMany_run:
  "notifications_insertMany e ds w =
     (w\<lparr>notifications :=
          notifications w @ zip (map (\<lambda>i. ObjectId (oid e (tick w + i))) [0..<length ds]) ds,
        tick := tick w + length ds\<rparr>,
      Inr (map (\<lambda>i. ObjectId (oid e (tick w + i))) [0..<length ds]))"
  by (simp add: notifications_insertMany_def)

lemma users_find_run: "users_find P w = (w, Inr (filter P (users w)))"
  by (simp add: users_find_def)

lemma users_findOne_run: "users_findOne P w = (w, Inr (findOne P (users w)))"
  by (simp add: users_findOne_def)

lemma createBulkNotifications_run:
  "createBulkNotifications e ids ty ttl msg md w =
     (w\<lparr>notifications :=
          notifications w @
          zip (map (\<lambda>j. ObjectId (oid e (tick w + length ids + j))) [0..<length ids])
            (map (\<lambda>(k, uid).
                \<lparr>userId = uid, ntype = ty, title = ttl, message = msg, read = False,
                 createdAt = clock e k, meta = md\<rparr>) (enumerate (tick w) ids)),
        tick := tick w + length ids + length ids,
        attempts :=
          attempts w @
          bulk_mails ttl msg (filter (\<lambda>(i, u). id_in ids i \<and> email_not_disabled u) (users w)),
        outbox :=
          outbox w @
          delivered e (attempts w)
            (bulk_mails ttl msg
               (filter (\<lambda>(i, u). id_in ids i \<and> email_not_disabled u) (users w))),
        log :=
          log w @
          map (\<lambda>m. ''Failed to send email to '' @ recipient m @ '':'')
            (refused e (attempts w)
               (bulk_mails ttl msg
                  (filter (\<lambda>(i, u). id_in ids i \<and> email_not_disabled u) (users w))))\<rparr>,
      Inr (map (\<lambda>(k, uid).
             \<lparr>userId = uid, ntype = ty, title = ttl, message = msg, read = False,
              createdAt = clock e k, meta = md\<rparr>) (enumerate (tick w) ids)))"
proof -
  have stamp: "io_map (\<lambda>uid. io_bind (new_Date e) (\<lambda>now. io_return
          \<lparr>userId = uid, ntype = ty, title = ttl, message = msg, read = False,
           createdAt = now, meta = md\<rparr>)) ids w =
      (w\<lparr>tick := tick w + length ids\<rparr>,
       Inr (map (\<lambda>(k, uid).
              \<lparr>userId = uid, ntype = ty, title = ttl, message = msg, read = False,
               createdAt = clock e k, meta = md\<rparr>) (enumerate (tick w) ids)))"
    by (rule stamp_run) (simp add: io_bind_run new_Date_run io_return_run)
  show ?thesis
    unfolding createBulkNotifications_def
    by (simp add: io_bind_run [where m = "io_map f xs" for f xs] stamp
        io_bind_run [where m = "notifications_insertMany e ds" for ds]
        notifications_insertMany_run
        io_bind_run [where m = "users_find P" for P] users_find_run
        io_bind_run [where m = "io_forEach xs f" for xs f] bulk_loop_run io_return_run
        add.assoc)
qed

text \<open>
  C5. \<open>createBulkNotifications\<close> appends to the notification collection, in one insert,
  exactly one record per element of the id list, in list order: record \<open>j\<close> is
  addressed to the \<open>j\<close>-th id, is unread, carries the \<open>j\<close>-th clock reading of the
  call as its creation time and the same type, title, message and metadata as every
  other record. Nothing else is added or changed in the collection.
\<close>

theorem createBulkNotifications_inserts:
  "notifications (fst (createBulkNotifications e ids ty ttl msg md w)) =
     notifications w @
     map (\<lambda>j. (ObjectId (oid e (tick w + length ids + j)),
               \<lparr>userId = ids ! j, ntype = ty, title = ttl, message = msg, read = False,
                createdAt = clock e (tick w + j), meta = md\<rparr>))
       [0..<length ids] \<and>
   length (notifications (fst (createBulkNotifications e ids ty ttl msg md w))) =
     length (notifications w) + length ids"
proof -
  have "zip (map (\<lambda>j. ObjectId (oid e (tick w + length ids + j))) [0..<length ids])
          (map (\<lambda>(k, uid).
              \<lparr>userId = uid, ntype = ty, title = ttl, message = msg, read = False,
               createdAt = clock e k, meta = md\<rparr>) (enumerate (tick w) ids)) =
        map (\<lambda>j. (ObjectId (oid e (tick w + length ids + j)),
               \<lparr>userId = ids ! j, ntype = ty, title = ttl, message = msg, read = False,
                createdAt = clock e (tick w + j), meta = md\<rparr>))
          [0..<length ids]"
    by (rule nth_equalityI) (simp_all add: nth_enumerate_eq)
  then show ?thesis
    by (simp add: createBulkNotifications_run)
qed

text \<open>
  C6. Whatever the gateway does, \<open>createBulkNotifications\<close> returns normally with the
  records it built. It hands the gateway one email for every selected user with an
  address, in store order, also after a refusal; each refused email leaves one line naming
  its recipient in the log, each delivered one reaches the outbox; and the notification
  collection and the returned records are those of the same call under any other
  gateway.
\<close>

theorem createBulkNotifications_survives_email_failures:
  "\<exists>w' ns.
     createBulkNotifications e ids ty ttl msg md w = (w', Inr ns) \<and>
     length ns = length ids \<and>
     attempts w' =
       attempts w @
       bulk_mails ttl msg (filter (\<lambda>(i, u). id_in ids i \<and> email_not_disabled u) (users w)) \<and>
     outbox w' =
       outbox w @
       delivered e (attempts w)
         (bulk_mails ttl msg
            (filter (\<lambda>(i, u). id_in ids i \<and> email_not_disabled u) (users w))) \<and>
     log w' =
       log w @
       map (\<lambda>m. ''Failed to send email to '' @ recipient m @ '':'')
         (refused e (attempts w)
            (bulk_mails ttl msg
               (filter (\<lambda>(i, u). id_in ids i \<and> email_not_disabled u) (users w)))) \<and>
     notifications w' =
       notifications (fst (createBulkNotifications (e\<lparr>gateway := g\<rparr>) ids ty ttl msg md w)) \<and>
     Inr ns = snd (createBulkNotifications (e\<lparr>gateway := g\<rparr>) ids ty ttl msg md w)"
  by (simp add: createBulkNotifications_run)

lemma createBulkNotifications_example:
  "createBulkNotifications (env_up\<lparr>gateway := (\<lambda>sent m. recipient m \<noteq> ''a@x.com'')\<rparr>)
     [''u1'', ''u2''] NEW_TENDER_AVAILABLE ''T'' ''M'' None
     (store [(StrId ''u1'', account ''a@x.com'' ''bidder'' (Some ''SUPPLIER'') True),
             (StrId ''u2'', account ''b@x.com'' ''bidder'' (Some ''SUPPLIER'') True)]) =
   (\<lparr>users = [(StrId ''u1'', account ''a@x.com'' ''bidder'' (Some ''SUPPLIER'') True),
              (StrId ''u2'', account ''b@x.com'' ''bidder'' (Some ''SUPPLIER'') True)],
     notifications =
       [(ObjectId ''aaa'', \<lparr>userId = ''u1'', ntype = NEW_TENDER_AVAILABLE, title = ''T'', message = ''M'',
                  read = False, createdAt = 1000, meta = None\<rparr>),
        (ObjectId ''aaaa'', \<lparr>userId = ''u2'', ntype = NEW_TENDER_AVAILABLE, title = ''T'', message = ''M'',
                   read = False, createdAt = 1001, meta = None\<rparr>)],
     projects = [],
     attempts = [Email ''a@x.com'' ''T'' (notification_html 10 ''T'' ''M''),
                 Email ''b@x.com'' ''T'' (notification_html 10 ''T'' ''M'')],
     outbox = [Email ''b@x.com'' ''T'' (notification_html 10 ''T'' ''M'')],
     log = [''Failed to send email to a@x.com:''],
     tick = 4\<rparr>,
    Inr [\<lparr>userId = ''u1'', ntype = NEW_TENDER_AVAILABLE, title = ''T'', message = ''M'',
          read = False, createdAt = 1000, meta = None\<rparr>,
         \<lparr>userId = ''u2'', ntype = NEW_TENDER_AVAILABLE, title = ''T'', message = ''M'',
          read = False, createdAt = 1001, meta = None\<rparr>])"
  by (simp add: createBulkNotifications_run env_up_def store_def account_def bulk_mails_def
      email_not_disabled_def id_in_def truthy_def str_def enumerate_eq_zip upt_rec [of 0] upt_rec [of 1]
      upt_rec [of 2])

section \<open>Single notifications\<close>

lemma notifications_insertOne_run:
  "notifications_insertOne e d w =
     (w\<lparr>notifications := notifications w @ [(ObjectId (oid e (tick w)), d)],
        tick := tick w + 1\<rparr>,
      Inr (ObjectId (oid e (tick w))))"
  by (simp add: notifications_insertOne_def)

lemma users_insertOne_run:
  "users_insertOne e d w =
     (w\<lparr>users := users w @ [(ObjectId (oid e (tick w)), d)], tick := tick w + 1\<rparr>,
      Inr (ObjectId (oid e (tick w))))"
  by (simp add: users_insertOne_def)

lemma projects_insertOne_run:
  "projects_insertOne e d w =
     (w\<lparr>projects := projects w @ [(ObjectId (oid e (tick w)), d)], tick := tick w + 1\<rparr>,
      Inr (ObjectId (oid e (tick w))))"
  by (simp add: projects_insertOne_def)

lemma gen_token_run:
  "gen_token e w = (w\<lparr>tick := tick w + 1\<rparr>, Inr (generateVerificationToken e (tick w)))"
  by (simp add: gen_token_def)

lemma createNotification_run:
  "createNotification e uid ty ttl msg md w =
     (case notification_mail uid ttl msg (users w) of
        None \<Rightarrow>
          (w\<lparr>notifications :=
               notifications w @
               [(ObjectId (oid e (tick w + 1)),
                 \<lparr>userId = uid, ntype = ty, title = ttl, message = msg, read = False,
                  createdAt = clock e (tick w), meta = md\<rparr>)],
             tick := tick w + 2\<rparr>,
           Inr \<lparr>userId = uid, ntype = ty, title = ttl, message = msg, read = False,
                createdAt = clock e (tick w), meta = md\<rparr>)
      | Some m \<Rightarrow>
          if gateway e (attempts w) m
          then
            (w\<lparr>notifications :=
                 notifications w @
                 [(ObjectId (oid e (tick w + 1)),
                   \<lparr>userId = uid, ntype = ty, title = ttl, message = msg, read = False,
                    createdAt = clock e (tick w), meta = md\<rparr>)],
               tick := tick w + 2,
               attempts := attempts w @ [m],
               outbox := outbox w @ [m]\<rparr>,
             Inr \<lparr>userId = uid, ntype = ty, title = ttl, message = msg, read = False,
                  createdAt = clock e (tick w), meta = md\<rparr>)
          else
            (w\<lparr>notifications :=
                 notifications w @
                 [(ObjectId (oid e (tick w + 1)),
                   \<lparr>userId = uid, ntype = ty, title = ttl, message = msg, read = False,
                    createdAt = clock e (tick w), meta = md\<rparr>)],
               tick := tick w + 2,
               attempts := attempts w @ [m]\<rparr>,
             Inl (EmailSendError m)))"
proof (cases "findOne (\<lambda>(i, u). i = StrId uid) (users w)")
  case None
  then show ?thesis
    by (simp add: createNotification_def notification_mail_def Let_def io_run
        notifications_insertOne_run users_findOne_run)
next
  case (Some iu)
  obtain i u where iu: "iu = (i, u)" by (cases iu)
  show ?thesis
  proof (cases "email u")
    case None
    with Some iu show ?thesis
      by (simp add: createNotification_def notification_mail_def Let_def io_run truthy_def
          notifications_insertOne_run users_findOne_run)
  next
    case (Some addr)
    with \<open>findOne (\<lambda>(i, u). i = StrId uid) (users w) = Some iu\<close> iu show ?thesis
      by (simp add: createNotification_def notification_mail_def Let_def io_run truthy_def
          str_def send_run notifications_insertOne_run users_findOne_run)
  qed
qed

section \<open>Signup\<close>

lemma signup_try_accepted:
  assumes "signup_accepts b w"
  shows "signup_try e (Some b) w =
     (if gateway e (attempts w)
           (VerificationEmail (str (sb_email b)) (generateVerificationToken e (tick w))
              (str (sb_companyName b)))
      then
        (case createNotification e (oid e (tick w + 4)) SIGNUP_COMPLETE
                ''Welcome to TenderChain!''
                (''Welcome '' @ str (sb_companyName b) @
                 ''! Your account has been created successfully. '' @
                 ''Please verify your email to get started.'')
                (Some \<lparr>md_projectId = None, md_bidId = None, md_tenderId = None,
                       md_profileId = Some (oid e (tick w + 4))\<rparr>)
                (w\<lparr>users := users w @ [(ObjectId (oid e (tick w + 4)), signup_user e b w)],
                   tick := tick w + 5,
                   attempts := attempts w @
                     [VerificationEmail (str (sb_email b))
                        (generateVerificationToken e (tick w)) (str (sb_companyName b))],
                   outbox := outbox w @
                     [VerificationEmail (str (sb_email b))
                        (generateVerificationToken e (tick w)) (str (sb_companyName b))]\<rparr>) of
           (w2, Inl err) \<Rightarrow>
             (w2\<lparr>log := log w2 @ [''User created but email failed to send:'']\<rparr>,
              Inr (200, SignupJson
                     (''User created successfully, but there was an issue sending the '' @
                      ''verification email. You can request a new verification email '' @
                      ''from the login page.'')
                     False (Some ''Email delivery failed'')))
         | (w2, Inr n) \<Rightarrow>
             (w2, Inr (200, SignupJson
                     (''User created successfully. '' @
                      ''Please check your email for verification.'') True None)))
      else
        (w\<lparr>users := users w @ [(ObjectId (oid e (tick w + 4)), signup_user e b w)],
           tick := tick w + 5,
           attempts := attempts w @
             [VerificationEmail (str (sb_email b))
                (generateVerificationToken e (tick w)) (str (sb_companyName b))],
           log := log w @ [''User created but email failed to send:'']\<rparr>,
         Inr (200, SignupJson
                (''User created successfully, but there was an issue sending the '' @
                 ''verification email. You can request a new verification email '' @
                 ''from the login page.'')
                False (Some ''Email delivery failed''))))"
proof -
  from assms have req: "truthy (sb_email b)" "truthy (sb_password b)"
    "truthy (sb_companyName b)" "truthy (sb_userType b)"
    and ut: "str (sb_userType b) = ''tender'' \<or>
      str (sb_userType b) = ''bidder'' \<and> truthy (sb_bidderType b) \<and>
      str (sb_bidderType b) \<in> set validBidderTypes"
    and pw: "\<not> length (str (sb_password b)) < 8"
    and fresh: "findOne (\<lambda>(i, u). email u = sb_email b) (users w) = None"
    by (auto simp: signup_accepts_def)
  from ut have ut1: "str (sb_userType b) \<in> set [''tender'', ''bidder'']"
    and ut2: "\<not> (str (sb_userType b) = ''bidder'' \<and> \<not> truthy (sb_bidderType b))"
    and ut3: "\<not> (str (sb_userType b) = ''bidder'' \<and>
        str (sb_bidderType b) \<notin> set validBidderTypes)"
    by auto
  have ticks: "tick w + 2 = Suc (Suc (tick w))" "tick w + 3 = Suc (Suc (Suc (tick w)))"
    "tick w + 4 = Suc (Suc (Suc (Suc (tick w))))"
    "tick w + 5 = Suc (Suc (Suc (Suc (Suc (tick w)))))"
    by simp_all
  show ?thesis
    unfolding signup_try_def ticks
    by (simp only: option.case req ut1 ut2 ut3 pw not_True_eq_False simp_thms if_False)
      (simp add: io_bind_run io_try_run io_return_run users_findOne_run fresh gen_token_run
        new_Date_run users_insertOne_run sendVerificationEmail_run send_run
        console_error_run signup_user_def Let_def ticks split: prod.splits sum.splits)
qed

lemma createNotification_effect:
  "\<exists>w' r. createNotification e uid ty ttl msg md w = (w', r) \<and>
     users w' = users w \<and> projects w' = projects w \<and>
     notifications w' =
       notifications w @
       [(ObjectId (oid e (tick w + 1)),
         \<lparr>userId = uid, ntype = ty, title = ttl, message = msg, read = False,
          createdAt = clock e (tick w), meta = md\<rparr>)]"
  by (simp add: createNotification_run split: option.splits)

lemma signup_try_rejected:
  assumes "\<not> signup_accepts b w"
  shows "\<exists>r. signup_try e (Some b) w = (w, Inr r)"
proof -
  have "findOne (\<lambda>(i, u). email u = sb_email b) (users w) \<noteq> None"
    if "truthy (sb_email b)" "truthy (sb_password b)" "truthy (sb_companyName b)"
      "truthy (sb_userType b)" "str (sb_userType b) \<in> set [''tender'', ''bidder'']"
      "\<not> (str (sb_userType b) = ''bidder'' \<and> \<not> truthy (sb_bidderType b))"
      "\<not> (str (sb_userType b) = ''bidder'' \<and> str (sb_bidderType b) \<notin> set validBidderTypes)"
      "\<not> length (str (sb_password b)) < 8"
    using assms that by (auto simp: signup_accepts_def)
  then show ?thesis
    unfolding signup_try_def
    by (auto simp: io_return_run io_bind_run users_findOne_run)
qed

lemma signup_POST_Some: "signup_POST e (Some b) w = signup_try e (Some b) w"
proof (cases "signup_accepts b w")
  case True
  obtain w2 r2 where cn: "createNotification e (oid e (tick w + 4)) SIGNUP_COMPLETE
      ''Welcome to TenderChain!''
      (''Welcome '' @ str (sb_companyName b) @
       ''! Your account has been created successfully. '' @
       ''Please verify your email to get started.'')
      (Some \<lparr>md_projectId = None, md_bidId = None, md_tenderId = None,
             md_profileId = Some (oid e (tick w + 4))\<rparr>)
      (w\<lparr>users := users w @ [(ObjectId (oid e (tick w + 4)), signup_user e b w)],
         tick := tick w + 5,
         attempts := attempts w @
           [VerificationEmail (str (sb_email b))
              (generateVerificationToken e (tick w)) (str (sb_companyName b))],
         outbox := outbox w @
           [VerificationEmail (str (sb_email b))
              (generateVerificationToken e (tick w)) (str (sb_companyName b))]\<rparr>) = (w2, r2)"
    by (rule prod.exhaust)
  show ?thesis
    unfolding signup_POST_def io_try_run signup_try_accepted [OF True] cn
    by (cases r2) simp_all
next
  case False
  from signup_try_rejected [OF False, of e] obtain r where "signup_try e (Some b) w = (w, Inr r)"
    by blast
  then show ?thesis by (simp add: signup_POST_def io_try_run)
qed

lemma signup_POST_None:
  "signup_POST e None w = (w\<lparr>log := log w @ [''Signup error:'']\<rparr>,
     Inr (500, ErrorJson ''Internal server error''))"
  by (simp add: signup_POST_def signup_try_def io_run)

lemma signup_POST_accepted:
  assumes "signup_accepts b w"
  shows "\<exists>w' txt sent warn.
     signup_POST e (Some b) w = (w', Inr (200, SignupJson txt sent warn)) \<and>
     users w' = users w @ [(ObjectId (oid e (tick w + 4)), signup_user e b w)] \<and>
     (if gateway e (attempts w)
           (VerificationEmail (str (sb_email b)) (generateVerificationToken e (tick w))
              (str (sb_companyName b)))
      then notifications w' =
             notifications w @
             [(ObjectId (oid e (tick w + 6)),
               \<lparr>userId = oid e (tick w + 4), ntype = SIGNUP_COMPLETE,
                title = ''Welcome to TenderChain!'',
                message = ''Welcome '' @ str (sb_companyName b) @
                  ''! Your account has been created successfully. '' @
                  ''Please verify your email to get started.'',
                read = False, createdAt = clock e (tick w + 5),
                meta = Some \<lparr>md_projectId = None, md_bidId = None, md_tenderId = None,
                              md_profileId = Some (oid e (tick w + 4))\<rparr>\<rparr>)]
      else notifications w' = notifications w \<and> sent = False \<and>
           warn = Some ''Email delivery failed'')"
proof -
  let ?w1 = "w\<lparr>users := users w @ [(ObjectId (oid e (tick w + 4)), signup_user e b w)],
         tick := tick w + 5,
         attempts := attempts w @
           [VerificationEmail (str (sb_email b))
              (generateVerificationToken e (tick w)) (str (sb_companyName b))],
         outbox := outbox w @
           [VerificationEmail (str (sb_email b))
              (generateVerificationToken e (tick w)) (str (sb_companyName b))]\<rparr>"
  from createNotification_effect [of e "oid e (tick w + 4)" SIGNUP_COMPLETE
      "''Welcome to TenderChain!''"
      "''Welcome '' @ str (sb_companyName b) @
       ''! Your account has been created successfully. '' @
       ''Please verify your email to get started.''"
      "Some \<lparr>md_projectId = None, md_bidId = None, md_tenderId = None,
             md_profileId = Some (oid e (tick w + 4))\<rparr>" ?w1]
  obtain w2 r2 where cn: "createNotification e (oid e (tick w + 4)) SIGNUP_COMPLETE
      ''Welcome to TenderChain!''
      (''Welcome '' @ str (sb_companyName b) @
       ''! Your account has been created successfully. '' @
       ''Please verify your email to get started.'')
      (Some \<lparr>md_projectId = None, md_bidId = None, md_tenderId = None,
             md_profileId = Some (oid e (tick w + 4))\<rparr>) ?w1 = (w2, r2)"
    and us: "users w2 = users ?w1"
    and ns: "notifications w2 = notifications ?w1 @
       [(ObjectId (oid e (tick ?w1 + 1)),
         \<lparr>userId = oid e (tick w + 4), ntype = SIGNUP_COMPLETE,
          title = ''Welcome to TenderChain!'',
          message = ''Welcome '' @ str (sb_companyName b) @
            ''! Your account has been created successfully. '' @
            ''Please verify your email to get started.'',
          read = False, createdAt = clock e (tick ?w1),
          meta = Some \<lparr>md_projectId = None, md_bidId = None, md_tenderId = None,
                        md_profileId = Some (oid e (tick w + 4))\<rparr>\<rparr>)]"
    by blast
  show ?thesis
    unfolding signup_POST_Some signup_try_accepted [OF assms] cn
    using us ns by (cases r2) (auto simp: add.commute [of 6])
qed

lemma signup_POST_persisted:
  assumes run: "signup_POST e req w = (w', r)" and changed: "users w' \<noteq> users w"
  obtains b where "req = Some b" and "signup_accepts b w"
proof (cases req)
  case None
  with run changed show ?thesis by (auto simp: signup_POST_None)
next
  case (Some b)
  show ?thesis
  proof (cases "signup_accepts b w")
    case True
    with Some that show ?thesis by blast
  next
    case False
    from signup_try_rejected [OF False, of e] run changed Some show ?thesis
      by (auto simp: signup_POST_Some)
  qed
qed

lemma signup_accepts_bidder_body: "signup_accepts bidder_body (store [])"
  by (simp add: signup_accepts_def bidder_body_def store_def truthy_def str_def
      validBidderTypes_def findOne_def)




text \<open>
  C2, as the code has it. A signup that persists the user answers 200. When the gateway
  delivers the verification email, exactly one notification is added: SIGNUP_COMPLETE,
  unread, addressed to the id of the new user (as text). When the gateway refuses the verification
  email, no notification is added; the answer carries \<open>emailSent = false\<close> and the
  warning, and the user record is stored all the same.
\<close>

theorem signup_notification_follows_verification_email:
  assumes "signup_POST e req w = (w', r)" and "users w' \<noteq> users w"
  shows "\<exists>b i u txt sent warn.
     req = Some b \<and> users w' = users w @ [(i, u)] \<and>
     r = Inr (200, SignupJson txt sent warn) \<and>
     (if gateway e (attempts w)
           (VerificationEmail (str (sb_email b)) (verificationToken u) (companyName u))
      then \<exists>nid n. notifications w' = notifications w @ [(nid, n)] \<and>
             userId n = toString i \<and> ntype n = SIGNUP_COMPLETE \<and> read n = False
      else notifications w' = notifications w \<and> sent = False \<and>
           warn = Some ''Email delivery failed'')"
proof -
  from assms obtain b where req: "req = Some b" and acc: "signup_accepts b w"
    by (rule signup_POST_persisted)
  have fields: "verificationToken (signup_user e b w) = generateVerificationToken e (tick w)"
    "companyName (signup_user e b w) = str (sb_companyName b)"
    by (simp_all add: signup_user_def)
  from signup_POST_accepted [OF acc, of e] assms(1) req
  show ?thesis
    by (auto simp: fields split: if_splits)
qed

theorem signup_notification_follows_verification_email_witness:
  "\<exists>nid n. notifications (fst (signup_POST env_up (Some bidder_body) (store []))) = [(nid, n)] \<and>
     userId n = ''aaaaa'' \<and> ntype n = SIGNUP_COMPLETE \<and> read n = False"
proof -
  obtain w' r where run: "signup_POST env_up (Some bidder_body) (store []) = (w', r)"
    by (rule prod.exhaust)
  have id5: "oid env_up (tick (store []) + 4) = ''aaaaa''"
    by (simp add: env_up_def store_def eval_nat_numeral)
  from signup_POST_accepted [OF signup_accepts_bidder_body, of env_up] run
  have grown: "users w' = users (store []) @ [(ObjectId ''aaaaa'', signup_user env_up bidder_body (store []))]"
    by (auto simp: id5)
  then have changed: "users w' \<noteq> users (store [])" by simp
  have up: "gateway env_up sent m" for sent m
    by (simp add: env_up_def)
  have fw: "fst (signup_POST env_up (Some bidder_body) (store [])) = w'"
    by (simp add: run)
  from signup_notification_follows_verification_email [OF run changed] grown
  show ?thesis
    unfolding fw by (auto simp: up store_def)
qed

text \<open>
  C2 as stated fails: with a gateway that refuses the verification email, the signup of
  a bidder on an empty store persists the user and answers 200 with the warning, and the
  notification collection stays empty.
\<close>

theorem signup_email_failure_no_notification:
  "users (fst (signup_POST env_down (Some bidder_body) (store []))) =
     [(ObjectId ''aaaaa'', signup_user env_down bidder_body (store []))] \<and>
   notifications (fst (signup_POST env_down (Some bidder_body) (store []))) = [] \<and>
   snd (signup_POST env_down (Some bidder_body) (store [])) =
     Inr (200, SignupJson
            (''User created successfully, but there was an issue sending the '' @
             ''verification email. You can request a new verification email '' @
             ''from the login page.'')
            False (Some ''Email delivery failed''))"
proof -
  have down: "\<not> gateway env_down sent m" for sent m
    by (simp add: env_down_def env_up_def)
  have id5: "oid env_down (tick (store []) + 4) = ''aaaaa''"
    by (simp add: env_down_def env_up_def store_def eval_nat_numeral)
  show ?thesis
    unfolding signup_POST_Some signup_try_accepted [OF signup_accepts_bidder_body] id5
    by (simp add: down store_def)
qed

section \<open>Reading and preferences\<close>

lemma updateOne_no_match: "find P ds = None \<Longrightarrow> updateOne P f ds = ds"
  by (induction ds) (auto split: if_splits)

lemma find_updateOne:
  "find P ds = Some d \<Longrightarrow> P (f d) \<Longrightarrow> find P (updateOne P f ds) = Some (f d)"
  by (induction ds) (auto split: if_splits)

lemma updateOne_twice:
  assumes "\<And>d. P d \<Longrightarrow> P (f d)" and "\<And>d. P d \<Longrightarrow> f (f d) = f d"
  shows "updateOne P f (updateOne P f ds) = updateOne P f ds"
  by (induction ds) (auto simp: assms)

lemma generated_ids_no_string: "generated_ids ds \<Longrightarrow> find (\<lambda>(i, d). i = StrId s) ds = None"
  by (induction ds) (auto simp: generated_ids_def split: doc_id.splits)

lemma generated_ids_append:
  "generated_ids (ds @ ds') \<longleftrightarrow> generated_ids ds \<and> generated_ids ds'"
  by (simp add: generated_ids_def)

text \<open>
  Every insert of the source stores under a generated id: a collection of generated ids
  stays one through \<open>createNotification\<close>, \<open>createBulkNotifications\<close> and signup.
\<close>

lemma createNotification_generated:
  assumes "generated_ids (notifications w)"
  shows "generated_ids (notifications (fst (createNotification e uid ty ttl msg md w)))"
  using createNotification_effect [of e uid ty ttl msg md w] assms
  by (auto simp: generated_ids_append) (simp add: generated_ids_def)

lemma createBulkNotifications_generated:
  assumes "generated_ids (notifications w)"
  shows "generated_ids (notifications (fst (createBulkNotifications e ids ty ttl msg md w)))"
proof -
  have "generated_ids (zip (map (\<lambda>j. ObjectId (f j)) js) ds)"
    for f :: "nat \<Rightarrow> string" and js and ds :: "notification list"
    by (auto simp: generated_ids_def list_all_iff dest!: set_zip_leftD)
  with assms show ?thesis
    by (simp add: createBulkNotifications_run generated_ids_append)
qed

lemma signup_POST_generated:
  assumes "generated_ids (users w)"
  shows "generated_ids (users (fst (signup_POST e req w)))"
proof (cases req)
  case None
  with assms show ?thesis by (simp add: signup_POST_None)
next
  case (Some b)
  show ?thesis
  proof (cases "signup_accepts b w")
    case True
    from signup_POST_accepted [OF True, of e] assms Some show ?thesis
      by (auto simp: generated_ids_append) (simp add: generated_ids_def)
  next
    case False
    from signup_try_rejected [OF False, of e] assms Some show ?thesis
      by (auto simp: signup_POST_Some)
  qed
qed

subsection \<open>markNotificationAsRead\<close>

text \<open>The call always returns, and a second call changes nothing more.\<close>

lemma markNotificationAsRead_twice:
  "snd (markNotificationAsRead nid w) = Inr () \<and>
   markNotificationAsRead nid (fst (markNotificationAsRead nid w)) =
     (fst (markNotificationAsRead nid w), Inr ())"
proof -
  have "updateOne (\<lambda>(i, n). i = StrId nid) (\<lambda>(i, n). (i, n\<lparr>read := True\<rparr>))
        (updateOne (\<lambda>(i, n). i = StrId nid) (\<lambda>(i, n). (i, n\<lparr>read := True\<rparr>)) ds) =
      updateOne (\<lambda>(i, n). i = StrId nid) (\<lambda>(i, n). (i, n\<lparr>read := True\<rparr>)) ds"
    for ds :: "(doc_id \<times> notification) list"
    by (rule updateOne_twice) auto
  then show ?thesis
    by (simp add: markNotificationAsRead_def)
qed

text \<open>A record stored under the string itself as id is marked.\<close>

lemma markNotificationAsRead_string_id:
  assumes "findOne (\<lambda>(i, n). i = StrId nid) (notifications w) = Some (i, n)"
  shows "findOne (\<lambda>(i, n). i = StrId nid)
           (notifications (fst (markNotificationAsRead nid w))) =
         Some (i, n\<lparr>read := True\<rparr>)"
  using find_updateOne [of "\<lambda>(i, n). i = StrId nid" "notifications w" "(i, n)"
      "\<lambda>(i, n). (i, n\<lparr>read := True\<rparr>)"] assms
  by (auto simp: markNotificationAsRead_def findOne_def dest: find_Some_iff [THEN iffD1])

text \<open>
  On a collection of generated ids, which is every collection the inserts of the source
  build, no record is selected: the call returns and leaves the store as it was.
\<close>

lemma markNotificationAsRead_generated:
  assumes "generated_ids (notifications w)"
  shows "markNotificationAsRead nid w = (w, Inr ())"
  by (simp add: markNotificationAsRead_def
      updateOne_no_match [OF generated_ids_no_string [OF assms]])

text \<open>
  C7. The call is idempotent, but it does not leave the record read: the filter compares
  the stored id with a string, and the records the source stores carry generated ids.
  Evaluated on the notification that \<open>createNotification\<close> stores on an empty store, whose
  id reads \<open>aa\<close>: after \<open>markNotificationAsRead\<close> with \<open>aa\<close>, once and twice, the record
  is still unread.
\<close>

theorem markNotificationAsRead_leaves_stored_record_unread:
  "map (\<lambda>(i, n). (i, toString i, read n))
     (notifications
        (fst (createNotification env_up ''u1'' BID_ACCEPTED ''Accepted'' ''Won'' None (store [])))) =
     [(ObjectId ''aa'', ''aa'', False)] \<and>
   map (\<lambda>(i, n). (i, toString i, read n))
     (notifications
        (fst (markNotificationAsRead ''aa''
           (fst (createNotification env_up ''u1'' BID_ACCEPTED ''Accepted'' ''Won'' None
                   (store [])))))) =
     [(ObjectId ''aa'', ''aa'', False)] \<and>
   map (\<lambda>(i, n). (i, toString i, read n))
     (notifications
        (fst (markNotificationAsRead ''aa''
           (fst (markNotificationAsRead ''aa''
              (fst (createNotification env_up ''u1'' BID_ACCEPTED ''Accepted'' ''Won'' None
                      (store [])))))))) =
     [(ObjectId ''aa'', ''aa'', False)]"
proof -
  have stored: "notifications
      (fst (createNotification env_up ''u1'' BID_ACCEPTED ''Accepted'' ''Won'' None (store []))) =
      [(ObjectId ''aa'',
        \<lparr>userId = ''u1'', ntype = BID_ACCEPTED, title = ''Accepted'', message = ''Won'',
         read = False, createdAt = 1000, meta = None\<rparr>)]"
    by (simp add: createNotification_run notification_mail_def findOne_def store_def env_up_def)
  have once: "notifications (fst (markNotificationAsRead ''aa'' w)) = notifications w"
    if "notifications w = [(ObjectId ''aa'', n)]" for w n
    using that by (simp add: markNotificationAsRead_def)
  have m1: "notifications (fst (markNotificationAsRead ''aa''
      (fst (createNotification env_up ''u1'' BID_ACCEPTED ''Accepted'' ''Won'' None (store []))))) =
      [(ObjectId ''aa'',
        \<lparr>userId = ''u1'', ntype = BID_ACCEPTED, title = ''Accepted'', message = ''Won'',
         read = False, createdAt = 1000, meta = None\<rparr>)]"
    unfolding once [OF stored] by (rule stored)
  have m2: "notifications (fst (markNotificationAsRead ''aa'' (fst (markNotificationAsRead ''aa''
      (fst (createNotification env_up ''u1'' BID_ACCEPTED ''Accepted'' ''Won'' None
              (store []))))))) =
      [(ObjectId ''aa'',
        \<lparr>userId = ''u1'', ntype = BID_ACCEPTED, title = ''Accepted'', message = ''Won'',
         read = False, createdAt = 1000, meta = None\<rparr>)]"
    unfolding once [OF m1] by (rule m1)
  show ?thesis
    unfolding stored m1 m2 by simp
qed

subsection \<open>updateNotificationPreferences\<close>

text \<open>
  For a user stored under the string itself as id the call replaces and does not merge:
  the stored preferences are the supplied object, every other field is as before.
\<close>

lemma updateNotificationPreferences_string_id:
  assumes "findOne (\<lambda>(i, u). i = StrId uid) (users w) = Some (i, u)"
  shows "\<exists>w'. updateNotificationPreferences uid preferences w = (w', Inr ()) \<and>
     findOne (\<lambda>(i, u). i = StrId uid) (users w') =
       Some (i, u\<lparr>notificationPrefs := Some preferences\<rparr>)"
proof -
  have "findOne (\<lambda>(i, u). i = StrId uid)
        (updateOne (\<lambda>(i, u). i = StrId uid)
           (\<lambda>(i, u). (i, u\<lparr>notificationPrefs := Some preferences\<rparr>)) (users w)) =
      Some (i, u\<lparr>notificationPrefs := Some preferences\<rparr>)"
    using find_updateOne [of "\<lambda>(i, u). i = StrId uid" "users w" "(i, u)"
        "\<lambda>(i, u). (i, u\<lparr>notificationPrefs := Some preferences\<rparr>)"] assms
    by (auto simp: findOne_def dest: find_Some_iff [THEN iffD1])
  then show ?thesis
    by (simp add: updateNotificationPreferences_def)
qed

text \<open>
  On users with generated ids, which is every user signup stores, no user is selected:
  the call returns and leaves the store as it was.
\<close>

lemma updateNotificationPreferences_generated:
  assumes "generated_ids (users w)"
  shows "updateNotificationPreferences uid preferences w = (w, Inr ())"
  by (simp add: updateNotificationPreferences_def
      updateOne_no_match [OF generated_ids_no_string [OF assms]])

text \<open>
  C8. The call does not store the supplied object for the users the source itself
  stores: the filter compares the stored id with a string, and signup stores its user
  under a generated id. Evaluated on the user a bidder signup stores on an empty store,
  whose id reads \<open>aaaaa\<close> and whose preferences are the defaults: after
  \<open>updateNotificationPreferences\<close> with \<open>aaaaa\<close> and an object that switches all three
  flags, the stored preferences are still the defaults.
\<close>

theorem updateNotificationPreferences_leaves_signup_user:
  "map (\<lambda>(i, u). (i, toString i, notificationPrefs u))
     (users (fst (signup_POST env_up (Some bidder_body) (store [])))) =
     [(ObjectId ''aaaaa'', ''aaaaa'',
       Some \<lparr>pref_email = Some True, pref_inApp = Some True, pref_push = Some False\<rparr>)] \<and>
   map (\<lambda>(i, u). (i, toString i, notificationPrefs u))
     (users (fst (updateNotificationPreferences ''aaaaa''
        \<lparr>pref_email = Some False, pref_inApp = Some False, pref_push = Some True\<rparr>
        (fst (signup_POST env_up (Some bidder_body) (store [])))))) =
     [(ObjectId ''aaaaa'', ''aaaaa'',
       Some \<lparr>pref_email = Some True, pref_inApp = Some True, pref_push = Some False\<rparr>)] \<and>
   snd (updateNotificationPreferences ''aaaaa''
        \<lparr>pref_email = Some False, pref_inApp = Some False, pref_push = Some True\<rparr>
        (fst (signup_POST env_up (Some bidder_body) (store [])))) = Inr ()"
proof -
  have id5: "oid env_up (tick (store []) + 4) = ''aaaaa''"
    by (simp add: env_up_def store_def eval_nat_numeral)
  obtain w' r where run: "signup_POST env_up (Some bidder_body) (store []) = (w', r)"
    by (rule prod.exhaust)
  from signup_POST_accepted [OF signup_accepts_bidder_body, of env_up] run
  have "users w' =
      users (store []) @ [(ObjectId ''aaaaa'', signup_user env_up bidder_body (store []))]"
    by (auto simp: id5)
  moreover have "fst (signup_POST env_up (Some bidder_body) (store [])) = w'"
    by (simp add: run)
  ultimately have stored: "users (fst (signup_POST env_up (Some bidder_body) (store []))) =
      [(ObjectId ''aaaaa'', signup_user env_up bidder_body (store []))]"
    by (simp add: store_def)
  have same: "users (fst (updateNotificationPreferences ''aaaaa'' p w)) = users w"
    if "users w = [(ObjectId ''aaaaa'', u)]" for p w u
    using that by (simp add: updateNotificationPreferences_def)
  show ?thesis
    unfolding same [OF stored] stored
    by (simp add: signup_user_def updateNotificationPreferences_def)
qed

section \<open>Projects\<close>

lemma set_limit_docs: "set (limit_docs n ds) \<subseteq> set ds"
  by (auto simp: limit_docs_def dest: in_set_takeD)

lemma in_limit_docs: "x \<in> set (limit_docs n ds) \<Longrightarrow> x \<in> set ds"
  by (rule subsetD [OF set_limit_docs])

lemma projects_find_sorted_run:
  "projects_find_sorted P limit w =
     (w, Inr (limit_docs limit
                (sort_key (\<lambda>(i, p). - int (p_createdAt p))
                   (filter (\<lambda>(i, p). P p) (projects w)))))"
  by (simp add: projects_find_sorted_def)

lemma projects_GET_try_plain:
  assumes "\<not> (q_userType q = Some ''bidder'' \<and> truthy (q_bidderType q))"
  shows "projects_GET_try q w =
     (w, Inr (200, ProjectsJson
        (limit_docs (case q_limit q of None \<Rightarrow> 50 | Some n \<Rightarrow> n)
           (sort_key (\<lambda>(i, p). - int (p_createdAt p))
              (filter (\<lambda>(i, p). status_filter (q_status q) p \<and>
                 category_filter (q_category q) p \<and> or_filter [] p) (projects w))))
        False (if truthy (q_bidderType q) then q_bidderType q else None)))"
  unfolding projects_GET_try_def Let_def
  by (simp add: assms io_bind_run io_return_run projects_find_sorted_run)

lemma projects_GET_try_raises:
  assumes "q_userType q = Some ''bidder''" "truthy (q_bidderType q)"
    and "lookup_categoryFilters (str (q_bidderType q)) = Inl err"
  shows "projects_GET_try q w = (w, Inl err)"
  unfolding projects_GET_try_def Let_def
  by (simp only: assms simp_thms if_True sum.case) (simp add: io_bind_run io_throw_run)

lemma projects_GET_try_role:
  assumes "q_userType q = Some ''bidder''" "truthy (q_bidderType q)"
    and "lookup_categoryFilters (str (q_bidderType q)) = Inr cats"
  shows "projects_GET_try q w =
     (w, Inr (200, ProjectsJson
        (limit_docs (case q_limit q of None \<Rightarrow> 50 | Some n \<Rightarrow> n)
           (sort_key (\<lambda>(i, p). - int (p_createdAt p))
              (filter (\<lambda>(i, p). status_filter (q_status q) p \<and>
                 category_filter (q_category q) p \<and> or_filter cats p) (projects w))))
        True (q_bidderType q)))"
  unfolding projects_GET_try_def Let_def
  by (simp only: assms simp_thms if_True sum.case)
    (simp only: io_bind_run io_return_run projects_find_sorted_run prod.case sum.case)

lemma listing_eq:
  "(w, Inr (s, ProjectsJson found f t)) = (w', Inr (st, ProjectsJson ps filtered filterType)) \<Longrightarrow>
   ps = found"
  by simp

lemma raised_neq: "(w, Inl err) = (w', Inr r) \<Longrightarrow> P"
  by simp

lemma in_sorted_filtered:
  "(i, p) \<in> set (sort_key k (filter (\<lambda>(i, p). A p \<and> B p \<and> C p) ds)) \<Longrightarrow>
   (i, p) \<in> set ds \<and> A p"
  by auto

lemma projects_GET_try_listing:
  assumes "projects_GET_try q w = (w', Inr (st, ProjectsJson ps filtered filterType))"
    and "(i, p) \<in> set ps"
  shows "(i, p) \<in> set (projects w) \<and> status_filter (q_status q) p"
proof -
  have "\<exists>cats. ps = limit_docs (case q_limit q of None \<Rightarrow> 50 | Some n \<Rightarrow> n)
       (sort_key (\<lambda>(i, p). - int (p_createdAt p))
          (filter (\<lambda>(i, p). status_filter (q_status q) p \<and> category_filter (q_category q) p \<and>
                or_filter cats p) (projects w)))"
  proof (cases "q_userType q = Some ''bidder'' \<and> truthy (q_bidderType q)")
    case False
    from assms(1) [unfolded projects_GET_try_plain [OF False]]
    have "ps = limit_docs (case q_limit q of None \<Rightarrow> 50 | Some n \<Rightarrow> n)
       (sort_key (\<lambda>(i, p). - int (p_createdAt p))
          (filter (\<lambda>(i, p). status_filter (q_status q) p \<and> category_filter (q_category q) p \<and>
                or_filter [] p) (projects w)))"
      by (rule listing_eq)
    then show ?thesis ..
  next
    case True
    then have role: "q_userType q = Some ''bidder''" "truthy (q_bidderType q)" by simp_all
    show ?thesis
    proof (cases "lookup_categoryFilters (str (q_bidderType q))")
      case (Inl err)
      from assms(1) [unfolded projects_GET_try_raises [OF role Inl]]
      show ?thesis by (rule raised_neq)
    next
      case (Inr cats)
      from assms(1) [unfolded projects_GET_try_role [OF role Inr]]
      have "ps = limit_docs (case q_limit q of None \<Rightarrow> 50 | Some n \<Rightarrow> n)
       (sort_key (\<lambda>(i, p). - int (p_createdAt p))
          (filter (\<lambda>(i, p). status_filter (q_status q) p \<and> category_filter (q_category q) p \<and>
                or_filter cats p) (projects w)))"
        by (rule listing_eq)
      then show ?thesis ..
    qed
  qed
  then obtain cats where ps: "ps = limit_docs (case q_limit q of None \<Rightarrow> 50 | Some n \<Rightarrow> n)
       (sort_key (\<lambda>(i, p). - int (p_createdAt p))
          (filter (\<lambda>(i, p). status_filter (q_status q) p \<and> category_filter (q_category q) p \<and>
                or_filter cats p) (projects w)))" ..
  have "(i, p) \<in> set (sort_key (\<lambda>(i, p). - int (p_createdAt p))
      (filter (\<lambda>(i, p). status_filter (q_status q) p \<and>
         category_filter (q_category q) p \<and> or_filter cats p) (projects w)))"
    by (rule in_limit_docs) (use assms(2) in \<open>simp only: ps\<close>)
  then show ?thesis by (rule in_sorted_filtered)
qed

text \<open>
  C10. Every project a GET returns is a project of the store, and when the request has no
  \<open>status\<close> parameter (or an empty one) its status is \<open>open\<close> or \<open>active\<close>; with a
  \<open>status\<close> parameter every returned project has exactly that status.
\<close>

theorem projects_GET_status:
  assumes "projects_GET q w = (w', Inr (st, ProjectsJson ps filtered filterType))"
  shows "\<forall>(i, p) \<in> set ps.
     (i, p) \<in> set (projects w) \<and>
     (if truthy (q_status q) then p_status p = str (q_status q)
      else p_status p = ''open'' \<or> p_status p = ''active'')"
proof -
  obtain w1 r1 where tr: "projects_GET_try q w = (w1, r1)"
    by (rule prod.exhaust)
  show ?thesis
  proof (cases r1)
    case (Inl err)
    with assms tr show ?thesis
      by (simp add: projects_GET_def io_try_run io_bind_run io_return_run console_error_run)
  next
    case (Inr resp)
    with assms tr have "projects_GET_try q w = (w', Inr (st, ProjectsJson ps filtered filterType))"
      by (simp add: projects_GET_def io_try_run)
    from projects_GET_try_listing [OF this] show ?thesis
      by (fastforce simp: status_filter_def)
  qed
qed

theorem projects_GET_status_witness:
  "projects_GET no_parameters
     ((store [])\<lparr>projects :=
        [(ObjectId ''p1'', posting ''Bridge'' ''open'' 10),
         (ObjectId ''p2'', posting ''Road'' ''closed'' 20),
         (ObjectId ''p3'', posting ''Dam'' ''active'' 30)]\<rparr>) =
     ((store [])\<lparr>projects :=
        [(ObjectId ''p1'', posting ''Bridge'' ''open'' 10),
         (ObjectId ''p2'', posting ''Road'' ''closed'' 20),
         (ObjectId ''p3'', posting ''Dam'' ''active'' 30)]\<rparr>,
      Inr (200, ProjectsJson
        [(ObjectId ''p3'', posting ''Dam'' ''active'' 30), (ObjectId ''p1'', posting ''Bridge'' ''open'' 10)]
        False None)) \<and>
   list_all (\<lambda>(i, p). p_status p = ''open'' \<or> p_status p = ''active'')
     [(ObjectId ''p3'', posting ''Dam'' ''active'' 30), (ObjectId ''p1'', posting ''Bridge'' ''open'' 10)]"
proof -
  let ?w = "(store [])\<lparr>projects :=
        [(ObjectId ''p1'', posting ''Bridge'' ''open'' 10),
         (ObjectId ''p2'', posting ''Road'' ''closed'' 20),
         (ObjectId ''p3'', posting ''Dam'' ''active'' 30)]\<rparr>"
  let ?ps = "[(ObjectId ''p3'', posting ''Dam'' ''active'' 30), (ObjectId ''p1'', posting ''Bridge'' ''open'' 10)]"
  have st: "p_status (posting t s c) = s" "p_createdAt (posting t s c) = c" for t s c
    by (simp_all add: posting_def)
  have run: "projects_GET no_parameters ?w = (?w, Inr (200, ProjectsJson ?ps False None))"
    unfolding projects_GET_def projects_GET_try_def Let_def
    by (simp add: io_try_run io_bind_run io_return_run projects_find_sorted_run
        no_parameters_def truthy_def st status_filter_def category_filter_def or_filter_def
        limit_docs_def store_def)
  have quiet: "\<not> truthy (q_status no_parameters)"
    by (simp add: no_parameters_def truthy_def)
  from projects_GET_status [OF run] quiet
  have "list_all (\<lambda>(i, p). p_status p = ''open'' \<or> p_status p = ''active'') ?ps"
    unfolding list_all_iff by auto
  with run show ?thesis by blast
qed

lemma notify_interested_bidders_returns:
  "\<exists>w'. notify_interested_bidders e body pid w = (w', Inr ()) \<and>
     users w' = users w \<and> projects w' = projects w"
proof -
  obtain ids where ids: "getInterestedBidders (str (pb_category body)) (pb_specifications body) w =
      (w, Inr ids)"
    using getInterestedBidders_run by blast
  show ?thesis
  proof (cases "length ids > 0")
    case False
    then show ?thesis
      unfolding notify_interested_bidders_def io_try_run io_bind_run ids
      by (simp add: io_return_run)
  next
    case True
    then show ?thesis
      unfolding notify_interested_bidders_def io_try_run io_bind_run ids
      by (simp add: io_return_run createBulkNotifications_run)
  qed
qed

lemma projects_POST_try_accepted:
  assumes "truthy (authorization req)" "startsWith (str (authorization req)) ''Bearer ''"
    and "verifyToken e (drop 7 (str (authorization req))) = Some payload"
    and "pl_userType payload = ''tender''"
    and "json_body req = Some body"
    and "truthy (pb_title body)" "truthy (pb_description body)" "truthy (pb_budget body)"
      "truthy (pb_deadline body)" "truthy (pb_category body)"
  shows "projects_POST_try e req w =
     (case createNotification e (pl_userId payload) PROJECT_CREATED
             ''Project Created Successfully''
             (project_created_message (str (pb_title body)))
             (Some \<lparr>md_projectId = Some (oid e (tick w + 2)), md_bidId = None,
                    md_tenderId = None, md_profileId = None\<rparr>)
             (w\<lparr>projects := projects w @
                  [(ObjectId (oid e (tick w + 2)),
                    newProject payload body (clock e (tick w)) (clock e (tick w + 1)))],
                tick := tick w + 3\<rparr>) of
        (w2, Inl err) \<Rightarrow> (w2, Inl err)
      | (w2, Inr n) \<Rightarrow>
          (fst (notify_interested_bidders e body (ObjectId (oid e (tick w + 2))) w2),
           Inr (200, ProjectCreatedJson ''Project created successfully''
                  (ObjectId (oid e (tick w + 2))))))"
proof -
  have ticks: "tick w + 2 = Suc (Suc (tick w))" "tick w + 3 = Suc (Suc (Suc (tick w)))"
    by simp_all
  have tail: "io_bind (notify_interested_bidders e body pid) (\<lambda>_. io_return r) w2 =
      (fst (notify_interested_bidders e body pid w2), Inr r)" for pid r w2
    using notify_interested_bidders_returns [of e body pid w2]
    by (auto simp: io_bind_run io_return_run)
  show ?thesis
    unfolding projects_POST_try_def ticks
    by (simp only: assms simp_thms if_False if_True option.case not_True_eq_False)
      (simp add: io_bind_run [where m = "new_Date e"] new_Date_run
        io_bind_run [where m = "projects_insertOne e d" for d] projects_insertOne_run
        io_bind_run [where m = "createNotification e u t a b c" for u t a b c] tail
        split: prod.splits sum.splits)
qed

lemma projects_POST_run:
  "projects_POST e req w =
     (case projects_POST_try e req w of
        (w', Inl err) \<Rightarrow>
          (w'\<lparr>log := log w' @ [''Error creating project:'']\<rparr>,
           Inr (500, ErrorJson ''Internal server error''))
      | (w', Inr r) \<Rightarrow> (w', Inr r))"
  by (simp add: projects_POST_def io_try_run io_bind_run console_error_run io_return_run
      split: prod.splits sum.splits)

text \<open>
  What decides the answer to an accepted creation request is the notification to the
  creator alone. When the gateway refuses the creator's email, the project is stored and
  the answer is 500.
\<close>

lemma projects_POST_creator_email_refused:
  assumes "truthy (authorization req)" "startsWith (str (authorization req)) ''Bearer ''"
    and "verifyToken e (drop 7 (str (authorization req))) = Some payload"
    and "pl_userType payload = ''tender''"
    and "json_body req = Some body"
    and "truthy (pb_title body)" "truthy (pb_description body)" "truthy (pb_budget body)"
      "truthy (pb_deadline body)" "truthy (pb_category body)"
    and "notification_mail (pl_userId payload) ''Project Created Successfully''
           (project_created_message (str (pb_title body))) (users w) = Some m"
    and "\<not> gateway e (attempts w) m"
  shows "\<exists>w'. projects_POST e req w = (w', Inr (500, ErrorJson ''Internal server error'')) \<and>
     projects w' =
       projects w @
       [(ObjectId (oid e (tick w + 2)),
         newProject payload body (clock e (tick w)) (clock e (tick w + 1)))]"
  unfolding projects_POST_run projects_POST_try_accepted [OF assms(1-10)]
  by (simp add: createNotification_run assms(11,12))

text \<open>
  When the creator is owed no email, or the gateway delivers it, the answer is 200,
  whatever the gateway does with the emails to the bidders.
\<close>

lemma projects_POST_creator_notified:
  assumes "truthy (authorization req)" "startsWith (str (authorization req)) ''Bearer ''"
    and "verifyToken e (drop 7 (str (authorization req))) = Some payload"
    and "pl_userType payload = ''tender''"
    and "json_body req = Some body"
    and "truthy (pb_title body)" "truthy (pb_description body)" "truthy (pb_budget body)"
      "truthy (pb_deadline body)" "truthy (pb_category body)"
    and "case notification_mail (pl_userId payload) ''Project Created Successfully''
           (project_created_message (str (pb_title body))) (users w) of
           None \<Rightarrow> True
         | Some m \<Rightarrow> gateway e (attempts w) m"
  shows "\<exists>w'. projects_POST e req w =
       (w', Inr (200, ProjectCreatedJson ''Project created successfully''
               (ObjectId (oid e (tick w + 2))))) \<and>
     projects w' =
       projects w @
       [(ObjectId (oid e (tick w + 2)),
         newProject payload body (clock e (tick w)) (clock e (tick w + 1)))]"
proof -
  have keep: "projects (fst (notify_interested_bidders e body pid w2)) = projects w2" for pid w2
    using notify_interested_bidders_returns [of e body pid w2] by auto
  show ?thesis
  proof (cases "notification_mail (pl_userId payload) ''Project Created Successfully''
           (project_created_message (str (pb_title body))) (users w)")
    case None
    show ?thesis
      unfolding projects_POST_run projects_POST_try_accepted [OF assms(1-10)]
      by (simp add: createNotification_run None keep)
  next
    case (Some m)
    with assms(11) have "gateway e (attempts w) m" by simp
    then show ?thesis
      unfolding projects_POST_run projects_POST_try_accepted [OF assms(1-10)]
      by (simp add: createNotification_run Some keep)
  qed
qed

text \<open>
  A creator that is stored under a generated id is never found by the string of the
  token, so no email is owed and the request is answered 200.
\<close>

lemma notification_mail_generated:
  "generated_ids us \<Longrightarrow> notification_mail uid ttl msg us = None"
  by (simp add: notification_mail_def findOne_def generated_ids_no_string)

text \<open>
  C3. The creation response does fail on a notification failure: the notification to the
  creator is sent outside the block that tolerates failures. Evaluated on a store holding
  the tender account stored under the string \<open>u1\<close> as id, with an address and email
  notifications on, and on a complete creation request with that account's token: with a gateway that refuses every email the
  project is stored and the answer is 500; with a gateway that delivers, the same request
  is answered 200.
\<close>

theorem projects_POST_fails_on_creator_notification:
  "snd (projects_POST env_down creation_request
          (store [(StrId ''u1'', account ''t@x.com'' ''tender'' None True)])) =
     Inr (500, ErrorJson ''Internal server error'') \<and>
   map (\<lambda>(i, p). (i, p_title p, p_status p))
     (projects (fst (projects_POST env_down creation_request
        (store [(StrId ''u1'', account ''t@x.com'' ''tender'' None True)])))) =
     [(ObjectId ''aaa'', ''Bridge'', ''open'')] \<and>
   log (fst (projects_POST env_down creation_request
        (store [(StrId ''u1'', account ''t@x.com'' ''tender'' None True)]))) =
     [''Error creating project:''] \<and>
   snd (projects_POST env_up creation_request
          (store [(StrId ''u1'', account ''t@x.com'' ''tender'' None True)])) =
     Inr (200, ProjectCreatedJson ''Project created successfully'' (ObjectId ''aaa''))"
proof -
  let ?w = "store [(StrId ''u1'', account ''t@x.com'' ''tender'' None True)]"
  let ?payload = "\<lparr>pl_userId = ''u1'', pl_userType = ''tender'', pl_companyName = ''Acme''\<rparr>"
  let ?body = "\<lparr>pb_title = Some ''Bridge'', pb_description = Some ''works'',
         pb_budget = Some ''1000'', pb_location = None, pb_deadline = Some ''2026-01-31'',
         pb_category = Some ''Catering'', pb_duration = None, pb_specifications = None,
         pb_requirements = None, pb_documents = None, pb_hasFiles = None\<rparr>"
  let ?m = "Email ''t@x.com'' ''Project Created Successfully''
      (notification_html 6 ''Project Created Successfully''
         (project_created_message (str (pb_title ?body))))"
  have auth: "truthy (authorization creation_request)"
    "startsWith (str (authorization creation_request)) ''Bearer ''"
    by (simp_all add: creation_request_def truthy_def str_def)
  have tok: "verifyToken e (drop 7 (str (authorization creation_request))) = Some ?payload"
    if "e = env_up \<or> e = env_down" for e
    using that by (auto simp: creation_request_def str_def env_up_def env_down_def)
  have tender: "pl_userType ?payload = ''tender''" by simp
  have body: "json_body creation_request = Some ?body"
    by (simp add: creation_request_def)
  have fields: "truthy (pb_title ?body)" "truthy (pb_description ?body)"
    "truthy (pb_budget ?body)" "truthy (pb_deadline ?body)" "truthy (pb_category ?body)"
    by (simp_all add: truthy_def)
  have mail: "notification_mail (pl_userId ?payload) ''Project Created Successfully''
      (project_created_message (str (pb_title ?body))) (users ?w) = Some ?m"
    by (simp add: notification_mail_def findOne_def store_def account_def truthy_def str_def
        email_not_disabled_def)
  have down: "\<not> gateway env_down (attempts ?w) ?m"
    by (simp add: env_down_def env_up_def)
  have up: "case notification_mail (pl_userId ?payload) ''Project Created Successfully''
      (project_created_message (str (pb_title ?body))) (users ?w) of
        None \<Rightarrow> True | Some m \<Rightarrow> gateway env_up (attempts ?w) m"
    unfolding mail by (simp add: env_up_def)
  have ids: "oid env_down (tick ?w + 2) = ''aaa''" "oid env_up (tick ?w + 2) = ''aaa''"
    by (simp_all add: env_down_def env_up_def store_def eval_nat_numeral)
  from projects_POST_creator_email_refused
    [OF auth tok tender body fields mail down, unfolded ids] 
  obtain w1 where r1: "projects_POST env_down creation_request ?w =
      (w1, Inr (500, ErrorJson ''Internal server error''))"
    and p1: "projects w1 = projects ?w @
       [(ObjectId ''aaa'', newProject ?payload ?body (clock env_down (tick ?w))
                   (clock env_down (tick ?w + 1)))]"
    by auto
  have l1: "log (fst (projects_POST env_down creation_request ?w)) =
      [''Error creating project:'']"
    unfolding projects_POST_run
      projects_POST_try_accepted [OF auth tok [of env_down] tender body fields, simplified]
    by (simp add: createNotification_run mail [simplified] down [simplified])
      (simp add: store_def)
  from projects_POST_creator_notified [OF auth tok tender body fields up, unfolded ids]
  obtain w2 where r2: "projects_POST env_up creation_request ?w =
      (w2, Inr (200, ProjectCreatedJson ''Project created successfully'' (ObjectId ''aaa'')))"
    by auto
  show ?thesis
    unfolding r1 r2 using p1 l1 [unfolded r1]
    by (simp add: newProject_def store_def str_def)
qed

end
